theory Spec2Isabelle
  imports Complex_Main
begin

section \<open>The circuit: an append-only log of gate operations\<close>

text \<open>
  \<^verbatim>\<open>pyquant.py\<close> keeps its circuit in an object of the circuit library
  (\<^verbatim>\<open>QuantumCircuit(num_qubits, num_qubits)\<close>) and only ever calls its methods
  \<^verbatim>\<open>h\<close>, \<^verbatim>\<open>x\<close>, \<^verbatim>\<open>cx\<close>, \<^verbatim>\<open>rz\<close>, \<^verbatim>\<open>ry\<close> and \<^verbatim>\<open>measure\<close>. The
  operations are the tagged records of the specification's data model, one for each of
  these methods (its MeasureAll is, in the source, the loop of \<^verbatim>\<open>measure_all\<close>): qubit
  and classical-bit indices are natural numbers (the source passes literals and loop
  indices of \<^verbatim>\<open>range\<close>), angles are real numbers (the source's floats, taken exactly).
\<close>

datatype gate =
    Hadamard nat
  | PauliX nat
  | ControlledX nat nat
  | RotationZ nat real
  | RotationY nat real
  | Measure nat nat

text \<open>
  The failures are the ones of the specification's error taxonomy that the modelled
  operations can raise.
\<close>

datatype error = ConfigurationError | OutOfRange | InvalidShotCount

record QuantumCircuit =
  qubits :: int
  clbits :: int
  data :: "gate list"

fun gate_qubits :: "gate \<Rightarrow> nat list" where
  "gate_qubits (Hadamard q) = [q]"
| "gate_qubits (PauliX q) = [q]"
| "gate_qubits (ControlledX c t) = [c, t]"
| "gate_qubits (RotationZ q a) = [q]"
| "gate_qubits (RotationY q a) = [q]"
| "gate_qubits (Measure q b) = [q]"

fun gate_clbits :: "gate \<Rightarrow> nat list" where
  "gate_clbits (Measure q b) = [b]"
| "gate_clbits g = []"

text \<open>
  An operation is in range when the circuit has every qubit and classical bit it names.
\<close>

definition in_range :: "QuantumCircuit \<Rightarrow> gate \<Rightarrow> bool" where
  "in_range c g \<longleftrightarrow>
     list_all (\<lambda>q. int q < qubits c) (gate_qubits g) \<and>
     list_all (\<lambda>b. int b < clbits c) (gate_clbits g)"

text \<open>
  Modelled from the spec: the constructor of the circuit class, which is the library's and
  not part of the repository's sources. The circuit builder's \<^verbatim>\<open>new(qubitCount,
  classicalBitCount)\<close> gives the empty circuit, and the spec names no check of the
  builder's own. The boundary is the library's, not the spec's: its constructor declares a
  register of size 0 (an empty register) without complaint and refuses only a negative
  size; the refusal is written here with the name the spec's taxonomy has for an invalid
  qubit count.
\<close>

definition QuantumCircuit_new :: "int \<Rightarrow> int \<Rightarrow> error + QuantumCircuit" where
  "QuantumCircuit_new nq nc =
     (if nq < 0 \<or> nc < 0 then Inl ConfigurationError
      else Inr \<lparr>qubits = nq, clbits = nc, data = []\<rparr>)"

text \<open>
  Modelled from the spec: \<^verbatim>\<open>append(gate)\<close> of the circuit builder, the library method
  behind \<^verbatim>\<open>h\<close>, \<^verbatim>\<open>cx\<close>, \<^verbatim>\<open>measure\<close> and the others (\<open>circuit_h\<close>,
  \<open>circuit_cx\<close>, \<open>circuit_measure\<close>, ... below). It adds the operation at the
  end of the log; the qubit-index bounds are checked eagerly, so an operation on a qubit
  or classical bit the circuit does not have raises and leaves no trace in the result.
\<close>

definition append_gate :: "QuantumCircuit \<Rightarrow> gate \<Rightarrow> error + QuantumCircuit" where
  "append_gate c g =
     (if in_range c g then Inr (c\<lparr>data := data c @ [g]\<rparr>) else Inl OutOfRange)"

definition circuit_h :: "QuantumCircuit \<Rightarrow> nat \<Rightarrow> error + QuantumCircuit" where
  "circuit_h c q = append_gate c (Hadamard q)"

definition circuit_x :: "QuantumCircuit \<Rightarrow> nat \<Rightarrow> error + QuantumCircuit" where
  "circuit_x c q = append_gate c (PauliX q)"

definition circuit_cx :: "QuantumCircuit \<Rightarrow> nat \<Rightarrow> nat \<Rightarrow> error + QuantumCircuit" where
  "circuit_cx c ctl tgt = append_gate c (ControlledX ctl tgt)"

definition circuit_rz :: "QuantumCircuit \<Rightarrow> real \<Rightarrow> nat \<Rightarrow> error + QuantumCircuit" where
  "circuit_rz c angle q = append_gate c (RotationZ q angle)"

definition circuit_ry :: "QuantumCircuit \<Rightarrow> real \<Rightarrow> nat \<Rightarrow> error + QuantumCircuit" where
  "circuit_ry c angle q = append_gate c (RotationY q angle)"

definition circuit_measure :: "QuantumCircuit \<Rightarrow> nat \<Rightarrow> nat \<Rightarrow> error + QuantumCircuit" where
  "circuit_measure c q b = append_gate c (Measure q b)"

subsection \<open>Sequencing and loops\<close>

text \<open>
  A raised exception ends the method: nothing in the repository catches one and goes on.
  \<open>and_then\<close> is the sequencing of two statements, \<open>for_each\<close> is
  \<^verbatim>\<open>for i in xs: body\<close>, and \<open>py_range n\<close> is \<^verbatim>\<open>range(n)\<close>, empty for \<open>n \<le> 0\<close>.
\<close>

definition and_then :: "error + 'a \<Rightarrow> ('a \<Rightarrow> error + 'b) \<Rightarrow> error + 'b" where
  "and_then r f = (case r of Inl e \<Rightarrow> Inl e | Inr v \<Rightarrow> f v)"

fun for_each :: "'i list \<Rightarrow> ('i \<Rightarrow> 's \<Rightarrow> error + 's) \<Rightarrow> 's \<Rightarrow> error + 's" where
  "for_each [] body s = Inr s"
| "for_each (i # is) body s =
     (case body i s of Inl e \<Rightarrow> Inl e | Inr s' \<Rightarrow> for_each is body s')"

definition py_range :: "int \<Rightarrow> nat list" where
  "py_range n = [0..<nat n]"

section \<open>\<^verbatim>\<open>pyquant.QuantumSimulator\<close>\<close>

text \<open>
  The object's fields are \<^verbatim>\<open>num_qubits\<close>, \<^verbatim>\<open>circuit\<close> and \<^verbatim>\<open>simulator\<close>; the last
  is the stateless backend, which appears here as the function \<open>AerSimulator_run\<close> below.
  A method that returns \<^verbatim>\<open>self\<close> returns the updated record.
\<close>

record QuantumSimulator =
  num_qubits :: int
  circuit :: QuantumCircuit

definition QuantumSimulator_init :: "int \<Rightarrow> error + QuantumSimulator" where
  "QuantumSimulator_init n =
     and_then (QuantumCircuit_new n n) (\<lambda>c. Inr \<lparr>num_qubits = n, circuit = c\<rparr>)"

text \<open>
  \<open>on_circuit s f\<close> is a call \<^verbatim>\<open>self.circuit.f(...)\<close>: the method mutates the circuit
  the simulator holds.
\<close>

definition on_circuit ::
  "QuantumSimulator \<Rightarrow> (QuantumCircuit \<Rightarrow> error + QuantumCircuit) \<Rightarrow> error + QuantumSimulator"
where
  "on_circuit s f = and_then (f (circuit s)) (\<lambda>c. Inr (s\<lparr>circuit := c\<rparr>))"

definition apply_hadamard :: "QuantumSimulator \<Rightarrow> nat \<Rightarrow> error + QuantumSimulator" where
  "apply_hadamard s q = on_circuit s (\<lambda>c. circuit_h c q)"

definition apply_cnot :: "QuantumSimulator \<Rightarrow> nat \<Rightarrow> nat \<Rightarrow> error + QuantumSimulator" where
  "apply_cnot s control_qubit target_qubit = on_circuit s (\<lambda>c. circuit_cx c control_qubit target_qubit)"

definition apply_phase :: "QuantumSimulator \<Rightarrow> nat \<Rightarrow> real \<Rightarrow> error + QuantumSimulator" where
  "apply_phase s q angle = on_circuit s (\<lambda>c. circuit_rz c angle q)"

definition measure_qubit :: "QuantumSimulator \<Rightarrow> nat \<Rightarrow> nat \<Rightarrow> error + QuantumSimulator" where
  "measure_qubit s q classical_bit = on_circuit s (\<lambda>c. circuit_measure c q classical_bit)"

definition measure_all :: "QuantumSimulator \<Rightarrow> error + QuantumSimulator" where
  "measure_all s =
     for_each (py_range (num_qubits s)) (\<lambda>i s'. on_circuit s' (\<lambda>c. circuit_measure c i i)) s"

definition create_bell_pair :: "QuantumSimulator \<Rightarrow> error + QuantumSimulator" where
  "create_bell_pair s = and_then (apply_hadamard s 0) (\<lambda>s1. apply_cnot s1 0 1)"

text \<open>
  \<^verbatim>\<open>quantum_teleportation(state_to_teleport)\<close> reads \<^verbatim>\<open>state_to_teleport[0]\<close> and
  \<^verbatim>\<open>state_to_teleport[1]\<close>: the argument is the pair of the two numbers.
  \<^verbatim>\<open>measure([0, 1], [0, 1])\<close> is the library's broadcast of \<^verbatim>\<open>measure\<close> over the two
  lists: qubit 0 into bit 0, then qubit 1 into bit 1.
\<close>

definition quantum_teleportation ::
  "QuantumSimulator \<Rightarrow> real \<times> real \<Rightarrow> error + QuantumSimulator"
where
  "quantum_teleportation s state_to_teleport =
     on_circuit s (\<lambda>c0.
       and_then (if fst state_to_teleport \<noteq> 0 then circuit_x c0 0 else Inr c0) (\<lambda>c1.
       and_then (if snd state_to_teleport \<noteq> 0 then circuit_rz c1 (snd state_to_teleport) 0 else Inr c1) (\<lambda>c2.
       and_then (circuit_h c2 1) (\<lambda>c3.
       and_then (circuit_cx c3 1 2) (\<lambda>c4.
       and_then (circuit_cx c4 0 1) (\<lambda>c5.
       and_then (circuit_h c5 0) (\<lambda>c6.
       and_then (circuit_measure c6 0 0) (\<lambda>c7.
       circuit_measure c7 1 1))))))))"

section \<open>The state-vector engine and the sampler\<close>

text \<open>
  \<^verbatim>\<open>QuantumSimulator.run\<close> hands the circuit to the backend
  (\<^verbatim>\<open>self.simulator.run(self.circuit, shots=shots)\<close>, then \<^verbatim>\<open>get_counts\<close>). The
  backend is the library's and not part of the repository's sources; what follows is its
  contract, as the specification gives it. The state of \<open>n\<close> qubits gives an amplitude
  to every basis index \<open>i < 2 ^ n\<close>, and bit \<open>k\<close> of \<open>i\<close> is the value of qubit \<open>k\<close>.
\<close>

type_synonym statevector = "nat \<Rightarrow> complex"

text \<open>
  Modelled from the spec: \<^verbatim>\<open>initialize(n)\<close> of the state-vector engine, absent from the
  sources. The ground state \<open>[1, 0, ..., 0]\<close>: all qubits \<open>|0>\<close>.
\<close>

definition initialize :: "nat \<Rightarrow> statevector" where
  "initialize n = (\<lambda>i. if i = 0 \<and> i < 2 ^ n then 1 else 0)"

text \<open>
  Modelled from the spec: \<^verbatim>\<open>apply(gate, state)\<close> of the state-vector engine, absent
  from the sources. The unitary of the gate on its qubits, the identity elsewhere: Hadamard
  maps \<open>|0>\<close> to \<open>(|0> + |1>)/\<surd>2\<close> and \<open>|1>\<close> to \<open>(|0> - |1>)/\<surd>2\<close>; PauliX flips the
  bit; ControlledX flips the target where the control is 1; RotationZ puts the phase
  \<open>e^(i\<theta>/2)\<close> on \<open>|1>\<close> and \<open>e^(-i\<theta>/2)\<close> on \<open>|0>\<close>; RotationY mixes the two
  amplitudes by \<open>cos (\<theta>/2)\<close> and \<open>sin (\<theta>/2)\<close>. A measurement declaration leaves the
  amplitudes alone.
\<close>

fun apply_gate :: "gate \<Rightarrow> statevector \<Rightarrow> statevector" where
  "apply_gate (Hadamard q) \<psi> =
     (\<lambda>i. (\<psi> (unset_bit q i) + (if bit i q then - 1 else 1) * \<psi> (set_bit q i))
           / complex_of_real (sqrt 2))"
| "apply_gate (PauliX q) \<psi> = (\<lambda>i. \<psi> (flip_bit q i))"
| "apply_gate (ControlledX c t) \<psi> = (\<lambda>i. if bit i c then \<psi> (flip_bit t i) else \<psi> i)"
| "apply_gate (RotationZ q \<theta>) \<psi> =
     (\<lambda>i. (if bit i q then cis (\<theta> / 2) else cis (- \<theta> / 2)) * \<psi> i)"
| "apply_gate (RotationY q \<theta>) \<psi> =
     (\<lambda>i. if bit i q
          then complex_of_real (sin (\<theta> / 2)) * \<psi> (unset_bit q i)
             + complex_of_real (cos (\<theta> / 2)) * \<psi> i
          else complex_of_real (cos (\<theta> / 2)) * \<psi> i
             - complex_of_real (sin (\<theta> / 2)) * \<psi> (set_bit q i))"
| "apply_gate (Measure q b) \<psi> = \<psi>"

text \<open>
  Modelled from the spec: the first step of the sampler's \<^verbatim>\<open>run(circuit, shots)\<close>,
  absent from the sources. The circuit's gates are executed once, in the order of the log,
  from the ground state.
\<close>

definition final_state :: "QuantumCircuit \<Rightarrow> statevector" where
  "final_state c = foldl (\<lambda>\<psi> g. apply_gate g \<psi>) (initialize (nat (qubits c))) (data c)"

text \<open>
  Modelled from the spec: the Born rule of the sampler, absent from the sources. The
  probability of the basis index \<open>i\<close> is the squared magnitude of its amplitude.
\<close>

definition born :: "statevector \<Rightarrow> nat \<Rightarrow> real" where
  "born \<psi> i = (cmod (\<psi> i))\<^sup>2"

text \<open>
  The histogram is a dictionary from bitstring to count, kept in insertion order.
\<close>

type_synonym histogram = "(string \<times> int) list"

text \<open>
  Modelled from the spec: the declared classical-bit mapping the sampler formats by,
  absent from the sources. The qubit measured into classical bit \<open>b\<close>, if any; the last
  declaration in the log wins.
\<close>

fun measured_qubit :: "gate list \<Rightarrow> nat \<Rightarrow> nat option" where
  "measured_qubit [] b = None"
| "measured_qubit (Measure q b' # gs) b =
     (case measured_qubit gs b of
        Some q' \<Rightarrow> Some q'
      | None \<Rightarrow> if b' = b then Some q else None)"
| "measured_qubit (g # gs) b = measured_qubit gs b"

text \<open>
  Modelled from the spec: the bitstring of a drawn basis index, absent from the sources. A
  string of fixed width, one character per classical bit: the value of the qubit measured
  into that bit, \<open>0\<close> for a bit nothing is measured into (so a circuit that declares no
  measurement gives the all-zero key for every draw). The spec asks for one fixed layout
  and leaves the end that holds bit 0 to the implementation; the backend's
  \<^verbatim>\<open>get_counts\<close> writes the highest classical bit first and classical bit 0 last, and
  so does the model.
\<close>

definition format_outcome :: "QuantumCircuit \<Rightarrow> nat \<Rightarrow> string" where
  "format_outcome c i =
     map (\<lambda>b. case measured_qubit (data c) b of
                 None \<Rightarrow> CHR ''0''
               | Some q \<Rightarrow> if bit i q then CHR ''1'' else CHR ''0'')
         (rev (py_range (clbits c)))"

text \<open>
  Modelled from the spec: the histogram aggregator, absent from the sources. It increments
  the count of the bitstring, which enters the dictionary with the count 1.
\<close>

definition tally :: "histogram \<Rightarrow> string \<Rightarrow> histogram" where
  "tally hist key =
     (case map_of hist key of
        None \<Rightarrow> hist @ [(key, 1)]
      | Some v \<Rightarrow> map (\<lambda>(k, n). if k = key then (k, n + 1) else (k, n)) hist)"

text \<open>
  Modelled from the spec: the sampler's \<^verbatim>\<open>run(circuit, shots)\<close>, which is the backend's
  \<^verbatim>\<open>run\<close> followed by \<^verbatim>\<open>get_counts\<close> and absent from the sources. It fails with
  InvalidShotCount if \<open>shots \<le> 0\<close> and with OutOfRange if a gate names a qubit or
  classical bit the circuit does not have; otherwise each of the \<open>shots\<close> trials draws one
  basis index, formats it and increments the count of its bitstring. The random draws are
  a parameter: \<open>draw k\<close> is the basis index drawn at trial \<open>k\<close>.
\<close>

definition AerSimulator_run ::
  "QuantumCircuit \<Rightarrow> int \<Rightarrow> (nat \<Rightarrow> nat) \<Rightarrow> error + histogram"
where
  "AerSimulator_run c shots draw =
     (if shots \<le> 0 then Inl InvalidShotCount
      else if \<not> list_all (in_range c) (data c) then Inl OutOfRange
      else Inr (foldl tally [] (map (\<lambda>k. format_outcome c (draw k)) [0..<nat shots])))"

text \<open>
  Modelled from the spec: what a draw from the categorical distribution of the Born rule
  can be, absent from the sources. Every one of the \<open>shots\<close> draws is a basis index of
  the register to which the final state gives a probability above 0.
\<close>

definition proper_draws :: "QuantumCircuit \<Rightarrow> int \<Rightarrow> (nat \<Rightarrow> nat) \<Rightarrow> bool" where
  "proper_draws c shots draw \<longleftrightarrow>
     (\<forall>k < nat shots. draw k < 2 ^ nat (qubits c) \<and> 0 < born (final_state c) (draw k))"

text \<open>
  \<^verbatim>\<open>QuantumSimulator.run(shots)\<close> itself: it passes the circuit and the shot count on
  and returns the counts, with no check of its own.
\<close>

definition run :: "QuantumSimulator \<Rightarrow> int \<Rightarrow> (nat \<Rightarrow> nat) \<Rightarrow> error + histogram" where
  "run s shots draw = AerSimulator_run (circuit s) shots draw"

section \<open>\<^verbatim>\<open>quantum_token_processor.QuantumTokenProcessor\<close>\<close>

text \<open>
  Of the object's fields the encodings use \<^verbatim>\<open>n_qubits\<close> and \<^verbatim>\<open>quantum_sim\<close>; the
  tokenizer and the credentials play no part in them. \<^verbatim>\<open>2**e\<close> is \<open>pow2 e\<close>: an
  integer for \<open>e \<ge> 0\<close>. (Python gives a float for \<open>e < 0\<close>; that arises only with
  \<^verbatim>\<open>n_qubits\<close> \<open>\<le> 0\<close>, where the register has no qubit 0 and the first rotation is
  refused whatever its angle.) \<^verbatim>\<open>%\<close> and \<^verbatim>\<open>//\<close> on integers round to the floor, as \<open>mod\<close>
  and \<open>div\<close> on \<open>int\<close> do; \<^verbatim>\<open>/\<close> is the true division, and \<^verbatim>\<open>np.pi\<close> is \<open>pi\<close>.
\<close>

record QuantumTokenProcessor =
  n_qubits :: int
  quantum_sim :: QuantumSimulator

definition pow2 :: "int \<Rightarrow> int" where
  "pow2 e = 2 ^ nat e"

text \<open>
  \<open>on_sim p f\<close> is a call \<^verbatim>\<open>self.quantum_sim.f(...)\<close>. \<open>cnot_chain\<close> is the loop
  \<^verbatim>\<open>for i in range(self.n_qubits - 1): self.quantum_sim.apply_cnot(i, i + 1)\<close>, which
  ends both \<^verbatim>\<open>_amplitude_encoding\<close> and \<^verbatim>\<open>_phase_encoding\<close>.
\<close>

definition on_sim ::
  "QuantumTokenProcessor \<Rightarrow> (QuantumSimulator \<Rightarrow> error + QuantumSimulator)
     \<Rightarrow> error + QuantumTokenProcessor"
where
  "on_sim p f = and_then (f (quantum_sim p)) (\<lambda>s. Inr (p\<lparr>quantum_sim := s\<rparr>))"

definition cnot_chain :: "QuantumTokenProcessor \<Rightarrow> error + QuantumTokenProcessor" where
  "cnot_chain p =
     for_each (py_range (n_qubits p - 1)) (\<lambda>i p'. on_sim p' (\<lambda>s. apply_cnot s i (i + 1))) p"

definition amplitude_encoding ::
  "QuantumTokenProcessor \<Rightarrow> int \<Rightarrow> error + QuantumTokenProcessor"
where
  "amplitude_encoding p token_id =
     (let normalized_value =
            real_of_int (token_id mod pow2 (n_qubits p)) / real_of_int (pow2 (n_qubits p));
          angle = normalized_value * pi
      in and_then (on_sim p (\<lambda>s. on_circuit s (\<lambda>c. circuit_ry c angle 0))) cnot_chain)"

definition phase_encoding ::
  "QuantumTokenProcessor \<Rightarrow> int \<Rightarrow> error + QuantumTokenProcessor"
where
  "phase_encoding p token_id =
     and_then
       (for_each (py_range (n_qubits p))
          (\<lambda>i p'. on_sim p' (\<lambda>s. on_circuit s (\<lambda>c. circuit_h c i))) p)
       (\<lambda>p1.
          let normalized_phase =
                real_of_int (token_id mod pow2 (n_qubits p1)) / real_of_int (pow2 (n_qubits p1))
                  * 2 * pi
          in and_then (on_sim p1 (\<lambda>s. on_circuit s (\<lambda>c. circuit_rz c normalized_phase 0)))
               cnot_chain)"

definition hybrid_encoding ::
  "QuantumTokenProcessor \<Rightarrow> int \<Rightarrow> error + QuantumTokenProcessor"
where
  "hybrid_encoding p token_id =
     (let amplitude_part = token_id mod pow2 (n_qubits p - 1);
          phase_part = token_id div pow2 (n_qubits p - 1)
      in and_then (amplitude_encoding p amplitude_part) (\<lambda>p1. phase_encoding p1 phase_part))"

definition encoding_schemes ::
  "string \<rightharpoonup> (QuantumTokenProcessor \<Rightarrow> int \<Rightarrow> error + QuantumTokenProcessor)"
where
  "encoding_schemes =
     [''amplitude'' \<mapsto> amplitude_encoding,
      ''phase'' \<mapsto> phase_encoding,
      ''hybrid'' \<mapsto> hybrid_encoding]"

text \<open>
  \<^verbatim>\<open>process_token\<close> returns the dictionary of relative frequencies; the model returns it
  together with the processor as the call leaves it, whose \<^verbatim>\<open>quantum_sim.circuit\<close> is
  the circuit the call built.
\<close>

definition process_token ::
  "QuantumTokenProcessor \<Rightarrow> int \<Rightarrow> string \<Rightarrow> (nat \<Rightarrow> nat)
     \<Rightarrow> error + (QuantumTokenProcessor \<times> (string \<times> real) list)"
where
  "process_token p token_id scheme draw =
     and_then (QuantumSimulator_init (n_qubits p)) (\<lambda>s0.
       let p0 = p\<lparr>quantum_sim := s0\<rparr>;
           encoding_func =
             (case encoding_schemes scheme of Some f \<Rightarrow> f | None \<Rightarrow> hybrid_encoding)
       in and_then (encoding_func p0 token_id) (\<lambda>p1.
          and_then (on_sim p1 measure_all) (\<lambda>p2.
          and_then (run (quantum_sim p2) 1000 draw) (\<lambda>results.
            Inr (p2, map (\<lambda>(k, v). (k, real_of_int v / 1000)) results)))))"

section \<open>Circuits named by their gates\<close>

text \<open>
  The statements below name the circuit a method leaves behind by the gates it added to the
  log: \<open>with_gates c gs\<close> is \<open>c\<close> with \<open>gs\<close> appended, and likewise for the simulator
  and the processor that hold the circuit.
\<close>

definition with_gates :: "QuantumCircuit \<Rightarrow> gate list \<Rightarrow> QuantumCircuit" where
  "with_gates c gs = c\<lparr>data := data c @ gs\<rparr>"

definition sim_with_gates :: "QuantumSimulator \<Rightarrow> gate list \<Rightarrow> QuantumSimulator" where
  "sim_with_gates s gs = s\<lparr>circuit := with_gates (circuit s) gs\<rparr>"

definition proc_with_gates :: "QuantumTokenProcessor \<Rightarrow> gate list \<Rightarrow> QuantumTokenProcessor" where
  "proc_with_gates p gs = p\<lparr>quantum_sim := sim_with_gates (quantum_sim p) gs\<rparr>"

section \<open>The circuits the spec describes\<close>

text \<open>
  These definitions follow the words of the specification: the gate sequences it gives for
  the teleportation protocol and for the three token encodings on \<open>n\<close> qubits, and the
  circuit \<^verbatim>\<open>process_token\<close> is said to build. The theorems compare them with what the
  code appends.
\<close>

definition teleportation_gates :: "real \<Rightarrow> real \<Rightarrow> gate list" where
  "teleportation_gates a b =
     (if a \<noteq> 0 then [PauliX 0] else []) @
     (if b \<noteq> 0 then [RotationZ 0 b] else []) @
     [Hadamard 1, ControlledX 1 2, ControlledX 0 1, Hadamard 0, Measure 0 0, Measure 1 1]"

definition cnot_gates :: "nat \<Rightarrow> gate list" where
  "cnot_gates n = map (\<lambda>i. ControlledX i (i + 1)) [0..<n - 1]"

definition amplitude_gates :: "nat \<Rightarrow> int \<Rightarrow> gate list" where
  "amplitude_gates n token_id =
     RotationY 0 (real_of_int (token_id mod 2 ^ n) / 2 ^ n * pi) # cnot_gates n"

definition phase_gates :: "nat \<Rightarrow> int \<Rightarrow> gate list" where
  "phase_gates n token_id =
     map Hadamard [0..<n]
       @ RotationZ 0 (real_of_int (token_id mod 2 ^ n) / 2 ^ n * (2 * pi)) # cnot_gates n"

definition hybrid_gates :: "nat \<Rightarrow> int \<Rightarrow> gate list" where
  "hybrid_gates n token_id =
     amplitude_gates n (token_id mod 2 ^ (n - 1)) @ phase_gates n (token_id div 2 ^ (n - 1))"

definition encoding_gates :: "string \<Rightarrow> nat \<Rightarrow> int \<Rightarrow> gate list" where
  "encoding_gates scheme n token_id =
     (if scheme = ''amplitude'' then amplitude_gates n token_id
      else if scheme = ''phase'' then phase_gates n token_id
      else hybrid_gates n token_id)"

definition measure_gates :: "nat \<Rightarrow> gate list" where
  "measure_gates n = map (\<lambda>i. Measure i i) [0..<n]"

definition token_circuit :: "int \<Rightarrow> int \<Rightarrow> string \<Rightarrow> QuantumCircuit" where
  "token_circuit n token_id scheme =
     \<lparr>qubits = n, clbits = n,
      data = encoding_gates scheme (nat n) token_id @ measure_gates (nat n)\<rparr>"

text \<open>
  A run of calls of \<^verbatim>\<open>process_token\<close> on one processor, each with its token, its
  scheme and its random draws, as the loop of \<^verbatim>\<open>process_text\<close> makes them.
\<close>

fun process_calls ::
  "QuantumTokenProcessor \<Rightarrow> (int \<times> string \<times> (nat \<Rightarrow> nat)) list \<Rightarrow> error + QuantumTokenProcessor"
where
  "process_calls p [] = Inr p"
| "process_calls p ((token_id, scheme, draw) # calls) =
     (case process_token p token_id scheme draw of
        Inl e \<Rightarrow> Inl e
      | Inr (p', freqs) \<Rightarrow> process_calls p' calls)"

text \<open>
  The state the spec names for the Bell pair, \<open>(|00> + |11>)/\<surd>2\<close> on qubits 0 and 1
  with every further qubit in \<open>|0>\<close>: the amplitude \<open>1/\<surd>2\<close> on the basis indices 0
  (both qubits 0) and 3 (both qubits 1), and 0 on every other index. Index 1 is the outcome
  with qubit 0 set alone, index 2 the outcome with qubit 1 set alone.
\<close>

definition bell_state :: statevector where
  "bell_state = (\<lambda>i. if i = 0 \<or> i = 3 then 1 / complex_of_real (sqrt 2) else 0)"

section \<open>Sequencing, appending and loops\<close>

lemma and_then_Inr [simp]: "and_then (Inr v) f = f v"
  by (simp add: and_then_def)

lemma and_then_Inl [simp]: "and_then (Inl e) f = Inl e"
  by (simp add: and_then_def)

lemma in_range_with_gates [simp]: "in_range (with_gates c gs) g = in_range c g"
  by (simp add: in_range_def with_gates_def)

lemma with_gates_Nil [simp]: "with_gates c [] = c"
  by (simp add: with_gates_def)

lemma with_gates_twice [simp]: "with_gates (with_gates c gs) hs = with_gates c (gs @ hs)"
  by (simp add: with_gates_def)

lemma sim_with_gates_Nil [simp]: "sim_with_gates s [] = s"
  by (simp add: sim_with_gates_def)

lemma sim_with_gates_twice [simp]:
  "sim_with_gates (sim_with_gates s gs) hs = sim_with_gates s (gs @ hs)"
  by (simp add: sim_with_gates_def)

lemma proc_with_gates_Nil [simp]: "proc_with_gates p [] = p"
  by (simp add: proc_with_gates_def)

lemma proc_with_gates_twice [simp]:
  "proc_with_gates (proc_with_gates p gs) hs = proc_with_gates p (gs @ hs)"
  by (simp add: proc_with_gates_def)

lemma circuit_sim_with_gates [simp]: "circuit (sim_with_gates s gs) = with_gates (circuit s) gs"
  by (simp add: sim_with_gates_def)

lemma num_qubits_sim_with_gates [simp]: "num_qubits (sim_with_gates s gs) = num_qubits s"
  by (simp add: sim_with_gates_def)

lemma quantum_sim_proc_with_gates [simp]:
  "quantum_sim (proc_with_gates p gs) = sim_with_gates (quantum_sim p) gs"
  by (simp add: proc_with_gates_def)

lemma n_qubits_proc_with_gates [simp]: "n_qubits (proc_with_gates p gs) = n_qubits p"
  by (simp add: proc_with_gates_def)

lemma qubits_with_gates [simp]: "qubits (with_gates c gs) = qubits c"
  by (simp add: with_gates_def)

lemma clbits_with_gates [simp]: "clbits (with_gates c gs) = clbits c"
  by (simp add: with_gates_def)

lemma data_with_gates [simp]: "data (with_gates c gs) = data c @ gs"
  by (simp add: with_gates_def)

lemma append_gate_ok: "in_range c g \<Longrightarrow> append_gate c g = Inr (with_gates c [g])"
  by (simp add: append_gate_def with_gates_def)

lemma on_circuit_append:
  "in_range (circuit s) g \<Longrightarrow> on_circuit s (\<lambda>c. append_gate c g) = Inr (sim_with_gates s [g])"
  by (simp add: on_circuit_def append_gate_ok sim_with_gates_def)

lemma on_sim_append:
  "in_range (circuit (quantum_sim p)) g \<Longrightarrow>
   on_sim p (\<lambda>s. on_circuit s (\<lambda>c. append_gate c g)) = Inr (proc_with_gates p [g])"
  by (simp add: on_sim_def on_circuit_append proc_with_gates_def)

lemma for_each_on_circuit:
  "list_all (\<lambda>i. in_range (circuit s) (f i)) js \<Longrightarrow>
   for_each js (\<lambda>i s'. on_circuit s' (\<lambda>c. append_gate c (f i))) s
     = Inr (sim_with_gates s (map f js))"
proof (induction js arbitrary: s)
  case Nil
  then show ?case by simp
next
  case (Cons j js)
  then show ?case by (simp add: on_circuit_append)
qed

lemma for_each_on_sim:
  "list_all (\<lambda>i. in_range (circuit (quantum_sim p)) (f i)) js \<Longrightarrow>
   for_each js (\<lambda>i p'. on_sim p' (\<lambda>s. on_circuit s (\<lambda>c. append_gate c (f i)))) p
     = Inr (proc_with_gates p (map f js))"
proof (induction js arbitrary: p)
  case Nil
  then show ?case by simp
next
  case (Cons j js)
  then show ?case by (simp add: on_sim_append)
qed

lemma in_range_Measure: "in_range c (Measure q b) \<longleftrightarrow> int q < qubits c \<and> int b < clbits c"
  by (simp add: in_range_def)

lemma in_range_ControlledX:
  "in_range c (ControlledX a b) \<longleftrightarrow> int a < qubits c \<and> int b < qubits c"
  by (simp add: in_range_def)

lemma in_range_single:
  "in_range c (Hadamard q) \<longleftrightarrow> int q < qubits c"
  "in_range c (PauliX q) \<longleftrightarrow> int q < qubits c"
  "in_range c (RotationZ q a) \<longleftrightarrow> int q < qubits c"
  "in_range c (RotationY q a) \<longleftrightarrow> int q < qubits c"
  by (simp_all add: in_range_def)

section \<open>What the methods append\<close>

lemma cnot_chain_ok:
  assumes "n_qubits p \<le> qubits (circuit (quantum_sim p))"
  shows "cnot_chain p = Inr (proc_with_gates p (cnot_gates (nat (n_qubits p))))"
proof -
  have "list_all (\<lambda>i. in_range (circuit (quantum_sim p)) (ControlledX i (i + 1)))
          (py_range (n_qubits p - 1))"
    using assms by (auto simp: list_all_iff py_range_def in_range_ControlledX)
  then have "for_each (py_range (n_qubits p - 1))
               (\<lambda>i p'. on_sim p' (\<lambda>s. on_circuit s (\<lambda>c. append_gate c (ControlledX i (i + 1))))) p
             = Inr (proc_with_gates p (map (\<lambda>i. ControlledX i (i + 1)) (py_range (n_qubits p - 1))))"
    by (rule for_each_on_sim)
  moreover have "nat (n_qubits p - 1) = nat (n_qubits p) - 1"
    by simp
  ultimately show ?thesis
    by (simp add: cnot_chain_def apply_cnot_def circuit_cx_def cnot_gates_def py_range_def)
qed

lemma amplitude_encoding_ok:
  assumes "1 \<le> n_qubits p" and "n_qubits p \<le> qubits (circuit (quantum_sim p))"
  shows "amplitude_encoding p token_id
           = Inr (proc_with_gates p (amplitude_gates (nat (n_qubits p)) token_id))"
proof -
  have "in_range (circuit (quantum_sim p)) (RotationY 0 a)" for a
    using assms by (simp add: in_range_single)
  then have first: "on_sim p (\<lambda>s. on_circuit s (\<lambda>c. circuit_ry c a 0))
                      = Inr (proc_with_gates p [RotationY 0 a])" for a
    unfolding circuit_ry_def by (rule on_sim_append)
  have pow: "real_of_int (pow2 (n_qubits p)) = 2 ^ nat (n_qubits p)"
    by (simp add: pow2_def)
  have "cnot_chain (proc_with_gates p [RotationY 0 a])
          = Inr (proc_with_gates p (RotationY 0 a # cnot_gates (nat (n_qubits p))))" for a
    using assms(2) by (simp add: cnot_chain_ok)
  then show ?thesis
    by (simp add: amplitude_encoding_def Let_def first amplitude_gates_def pow2_def)
qed

lemma phase_encoding_ok:
  assumes "1 \<le> n_qubits p" and "n_qubits p \<le> qubits (circuit (quantum_sim p))"
  shows "phase_encoding p token_id
           = Inr (proc_with_gates p (phase_gates (nat (n_qubits p)) token_id))"
proof -
  have "list_all (\<lambda>i. in_range (circuit (quantum_sim p)) (Hadamard i)) (py_range (n_qubits p))"
    using assms by (auto simp: list_all_iff py_range_def in_range_single)
  then have hs: "for_each (py_range (n_qubits p))
               (\<lambda>i p'. on_sim p' (\<lambda>s. on_circuit s (\<lambda>c. append_gate c (Hadamard i)))) p
             = Inr (proc_with_gates p (map Hadamard (py_range (n_qubits p))))"
    by (rule for_each_on_sim)
  have "in_range (circuit (quantum_sim (proc_with_gates p gs))) (RotationZ 0 a)" for a gs
    using assms by (simp add: in_range_single)
  then have rot: "on_sim (proc_with_gates p gs) (\<lambda>s. on_circuit s (\<lambda>c. circuit_rz c a 0))
                      = Inr (proc_with_gates p (gs @ [RotationZ 0 a]))" for a gs
    unfolding circuit_rz_def by (simp add: on_sim_append)
  have chain: "cnot_chain (proc_with_gates p gs)
          = Inr (proc_with_gates p (gs @ cnot_gates (nat (n_qubits p))))" for gs
    using assms(2) by (simp add: cnot_chain_ok)
  show ?thesis
    by (simp add: phase_encoding_def circuit_h_def hs Let_def rot chain phase_gates_def
        pow2_def) (simp add: py_range_def)
qed

lemma hybrid_encoding_ok:
  assumes "1 \<le> n_qubits p" and "n_qubits p \<le> qubits (circuit (quantum_sim p))"
  shows "hybrid_encoding p token_id
           = Inr (proc_with_gates p (hybrid_gates (nat (n_qubits p)) token_id))"
proof -
  have e: "nat (n_qubits p - 1) = nat (n_qubits p) - 1"
    by simp
  show ?thesis
    using assms
    by (simp add: hybrid_encoding_def Let_def amplitude_encoding_ok phase_encoding_ok
        hybrid_gates_def pow2_def e)
qed

lemma amplitude_angle_bounds:
  "0 \<le> real_of_int (t mod 2 ^ n) / 2 ^ n * pi \<and> real_of_int (t mod 2 ^ n) / 2 ^ n * pi < pi"
proof -
  define r where "r = real_of_int (t mod 2 ^ n) / 2 ^ n"
  have "0 \<le> t mod 2 ^ n" and "t mod 2 ^ n < 2 ^ n"
    by simp_all
  then have "0 \<le> real_of_int (t mod 2 ^ n)" and "real_of_int (t mod 2 ^ n) < 2 ^ n"
    by (simp, metis of_int_less_iff of_int_numeral of_int_power)
  then have "0 \<le> r" and "r < 1"
    by (simp_all add: r_def)
  have "r * pi < 1 * pi"
    using \<open>r < 1\<close> pi_gt_zero by (rule mult_strict_right_mono)
  moreover have "0 \<le> r * pi"
    using \<open>0 \<le> r\<close> by simp
  ultimately show ?thesis
    unfolding r_def by simp
qed

lemma create_bell_pair_ok:
  assumes "2 \<le> qubits (circuit s)"
  shows "create_bell_pair s = Inr (sim_with_gates s [Hadamard 0, ControlledX 0 1])"
  using assms
  by (simp add: create_bell_pair_def apply_hadamard_def apply_cnot_def circuit_h_def
      circuit_cx_def on_circuit_append in_range_single in_range_ControlledX)

lemma measure_all_ok:
  assumes "num_qubits s \<le> qubits (circuit s)" and "num_qubits s \<le> clbits (circuit s)"
  shows "measure_all s = Inr (sim_with_gates s (measure_gates (nat (num_qubits s))))"
proof -
  have "list_all (\<lambda>i. in_range (circuit s) (Measure i i)) (py_range (num_qubits s))"
    using assms by (auto simp: list_all_iff py_range_def in_range_Measure)
  then have "for_each (py_range (num_qubits s))
                (\<lambda>i s'. on_circuit s' (\<lambda>c. append_gate c (Measure i i))) s
               = Inr (sim_with_gates s (map (\<lambda>i. Measure i i) (py_range (num_qubits s))))"
    by (rule for_each_on_circuit)
  then show ?thesis
    by (simp add: measure_all_def circuit_measure_def measure_gates_def py_range_def)
qed

lemma QuantumSimulator_init_eq:
  "QuantumSimulator_init n =
     (if n < 0 then Inl ConfigurationError
      else Inr \<lparr>num_qubits = n, circuit = \<lparr>qubits = n, clbits = n, data = []\<rparr>\<rparr>)"
  by (simp add: QuantumSimulator_init_def QuantumCircuit_new_def)

lemma teleport_ok:
  assumes "3 \<le> qubits (circuit s)" and "2 \<le> clbits (circuit s)"
  shows "quantum_teleportation s (a, b) =
           Inr (sim_with_gates s
                 ((if a \<noteq> 0 then [PauliX 0] else []) @
                  (if b \<noteq> 0 then [RotationZ 0 b] else []) @
                  [Hadamard 1, ControlledX 1 2, ControlledX 0 1, Hadamard 0,
                   Measure 0 0, Measure 1 1]))"
  using assms
  by (simp add: quantum_teleportation_def on_circuit_def circuit_x_def circuit_rz_def
      circuit_h_def circuit_cx_def circuit_measure_def append_gate_ok in_range_single
      in_range_ControlledX in_range_Measure sim_with_gates_def)

lemma encoding_func_ok:
  assumes "1 \<le> n_qubits p" and "n_qubits p \<le> qubits (circuit (quantum_sim p))"
  shows "(case encoding_schemes scheme of Some f \<Rightarrow> f | None \<Rightarrow> hybrid_encoding) p token_id
           = Inr (proc_with_gates p (encoding_gates scheme (nat (n_qubits p)) token_id))"
  using assms
  by (simp add: encoding_schemes_def encoding_gates_def amplitude_encoding_ok
      phase_encoding_ok hybrid_encoding_ok)

lemma in_range_cnot_gates:
  "int n \<le> qubits c \<Longrightarrow> list_all (in_range c) (cnot_gates n)"
  by (auto simp: list_all_iff cnot_gates_def in_range_ControlledX)

lemma in_range_amplitude_gates:
  "1 \<le> n \<Longrightarrow> int n \<le> qubits c \<Longrightarrow> list_all (in_range c) (amplitude_gates n t)"
  by (simp add: amplitude_gates_def in_range_cnot_gates in_range_single)

lemma in_range_phase_gates:
  "1 \<le> n \<Longrightarrow> int n \<le> qubits c \<Longrightarrow> list_all (in_range c) (phase_gates n t)"
  by (simp add: phase_gates_def in_range_cnot_gates in_range_single)
     (auto simp: list_all_iff in_range_single)

lemma in_range_encoding_gates:
  "1 \<le> n \<Longrightarrow> int n \<le> qubits c \<Longrightarrow> list_all (in_range c) (encoding_gates scheme n t)"
  by (simp add: encoding_gates_def hybrid_gates_def in_range_amplitude_gates
      in_range_phase_gates)

lemma in_range_measure_gates:
  "int n \<le> qubits c \<Longrightarrow> int n \<le> clbits c \<Longrightarrow> list_all (in_range c) (measure_gates n)"
  by (auto simp: list_all_iff measure_gates_def in_range_Measure)

lemma in_range_token_circuit:
  "1 \<le> n \<Longrightarrow> list_all (in_range (token_circuit n t scheme)) (data (token_circuit n t scheme))"
  by (simp add: token_circuit_def in_range_encoding_gates in_range_measure_gates)

lemma process_token_ok:
  assumes "1 \<le> n_qubits p"
  shows "process_token p token_id scheme draw =
           Inr (\<lparr>n_qubits = n_qubits p,
                 quantum_sim = \<lparr>num_qubits = n_qubits p,
                                circuit = token_circuit (n_qubits p) token_id scheme\<rparr>\<rparr>,
                map (\<lambda>(k, v). (k, real_of_int v / 1000))
                  (foldl tally []
                     (map (\<lambda>k. format_outcome (token_circuit (n_qubits p) token_id scheme) (draw k))
                        [0..<1000])))"
proof -
  define s0 where "s0 = \<lparr>num_qubits = n_qubits p,
                         circuit = \<lparr>qubits = n_qubits p, clbits = n_qubits p, data = []\<rparr>\<rparr>"
  define p0 where "p0 = p\<lparr>quantum_sim := s0\<rparr>"
  define gs where "gs = encoding_gates scheme (nat (n_qubits p)) token_id"
  have init: "QuantumSimulator_init (n_qubits p) = Inr s0"
    using assms by (simp add: QuantumSimulator_init_eq s0_def)
  have enc: "(case encoding_schemes scheme of Some f \<Rightarrow> f | None \<Rightarrow> hybrid_encoding) p0 token_id
               = Inr (proc_with_gates p0 gs)"
    using assms encoding_func_ok [of p0 scheme token_id] by (simp add: p0_def s0_def gs_def)
  have meas: "on_sim (proc_with_gates p0 gs) measure_all
                = Inr (proc_with_gates p0 (gs @ measure_gates (nat (n_qubits p))))"
    by (simp add: on_sim_def measure_all_ok p0_def s0_def proc_with_gates_def)
  have built: "proc_with_gates p0 (gs @ measure_gates (nat (n_qubits p)))
                 = \<lparr>n_qubits = n_qubits p,
                    quantum_sim = \<lparr>num_qubits = n_qubits p,
                                   circuit = token_circuit (n_qubits p) token_id scheme\<rparr>\<rparr>"
    by (simp add: proc_with_gates_def sim_with_gates_def with_gates_def p0_def s0_def
        token_circuit_def gs_def)
  have "run \<lparr>num_qubits = n_qubits p,
             circuit = token_circuit (n_qubits p) token_id scheme\<rparr> 1000 draw
          = Inr (foldl tally []
                  (map (\<lambda>k. format_outcome (token_circuit (n_qubits p) token_id scheme) (draw k))
                     [0..<1000]))"
    using assms by (simp add: run_def AerSimulator_run_def in_range_token_circuit)
  then show ?thesis
    unfolding process_token_def init and_then_Inr Let_def p0_def [symmetric] enc meas built
    by simp
qed

lemma process_token_fails:
  assumes "n_qubits p \<le> 0"
  shows "process_token p token_id scheme draw =
           Inl (if n_qubits p < 0 then ConfigurationError else OutOfRange)"
proof (cases "n_qubits p < 0")
  case True
  then show ?thesis
    by (simp add: process_token_def QuantumSimulator_init_eq)
next
  case False
  with assms have z: "n_qubits p = 0" by simp
  have "amplitude_encoding (p\<lparr>quantum_sim := \<lparr>num_qubits = 0, circuit = \<lparr>qubits = 0, clbits = 0, data = []\<rparr>\<rparr>\<rparr>) t
          = Inl OutOfRange" for t
    by (simp add: amplitude_encoding_def Let_def on_sim_def on_circuit_def circuit_ry_def
        append_gate_def in_range_def)
  moreover have "phase_encoding (p\<lparr>quantum_sim := \<lparr>num_qubits = 0, circuit = \<lparr>qubits = 0, clbits = 0, data = []\<rparr>\<rparr>\<rparr>) t
          = Inl OutOfRange" for t
    using z
    by (simp add: phase_encoding_def Let_def on_sim_def on_circuit_def circuit_rz_def
        append_gate_def in_range_def py_range_def)
  ultimately show ?thesis
    using z
    by (simp add: process_token_def QuantumSimulator_init_eq encoding_schemes_def
        hybrid_encoding_def Let_def)
qed

lemma process_token_n_qubits:
  assumes "process_token p token_id scheme draw = Inr (p', freqs)"
  shows "n_qubits p' = n_qubits p \<and> 1 \<le> n_qubits p"
proof (cases "1 \<le> n_qubits p")
  case True
  with assms show ?thesis by (auto simp: process_token_ok)
next
  case False
  then have "n_qubits p \<le> 0" by simp
  from process_token_fails [OF this] assms show ?thesis by simp
qed

lemma process_calls_n_qubits:
  "process_calls p calls = Inr p' \<Longrightarrow> n_qubits p' = n_qubits p"
proof (induction calls arbitrary: p)
  case Nil
  then show ?case by simp
next
  case (Cons call calls)
  obtain t s d where call: "call = (t, s, d)" by (cases call)
  from Cons.prems obtain p1 r1 where one: "process_token p t s d = Inr (p1, r1)"
    and rest: "process_calls p1 calls = Inr p'"
    by (auto simp: call split: sum.splits)
  from Cons.IH [OF rest] process_token_n_qubits [OF one] show ?case by simp
qed

lemma process_token_reads_n_qubits_only:
  assumes "n_qubits q = n_qubits p"
  shows "process_token q token_id scheme draw = process_token p token_id scheme draw"
proof -
  have eq: "q\<lparr>quantum_sim := s\<rparr> = p\<lparr>quantum_sim := s\<rparr>" for s
    using assms by simp
  show ?thesis
    unfolding process_token_def Let_def assms eq by (rule refl)
qed

section \<open>Histograms of constant draws\<close>

lemma foldl_tally_same:
  "foldl tally [(key, v)] (replicate n key) = [(key, v + int n)]"
  by (induction n arbitrary: v) (simp_all add: tally_def)

lemma foldl_tally_replicate:
  "foldl tally [] (replicate (Suc n) key) = [(key, 1 + int n)]"
  by (simp add: tally_def foldl_tally_same)

lemma format_outcome_0:
  "format_outcome c 0 = replicate (nat (clbits c)) (CHR ''0'')"
proof -
  have "(\<lambda>b. case measured_qubit (data c) b of
               None \<Rightarrow> CHR ''0''
             | Some q \<Rightarrow> if bit (0::nat) q then CHR ''1'' else CHR ''0'') = (\<lambda>b. CHR ''0'')"
    by (auto split: option.splits)
  then show ?thesis
    by (simp add: format_outcome_def py_range_def map_replicate_const)
qed

lemma histogram_all_zero_draws:
  assumes "0 < n"
  shows "foldl tally [] (map (\<lambda>k. format_outcome c 0) [0..<n])
           = [(replicate (nat (clbits c)) (CHR ''0''), int n)]"
proof -
  from assms obtain m where n: "n = Suc m"
    by (cases n) simp_all
  have "map (\<lambda>k. format_outcome c 0) [0..<n] = replicate n (format_outcome c 0)"
    by (simp only: map_replicate_const length_upt diff_zero)
  also have "\<dots> = replicate (Suc m) (format_outcome c 0)"
    by (simp only: n)
  finally have "foldl tally [] (map (\<lambda>k. format_outcome c 0) [0..<n])
                  = [(format_outcome c 0, 1 + int m)]"
    by (simp only: foldl_tally_replicate)
  moreover have "1 + int m = int n"
    by (simp add: n)
  ultimately show ?thesis
    by (simp only: format_outcome_0)
qed

section \<open>The histogram, the Bell state and the keys\<close>

lemma bump_absent:
  "key \<notin> fst ` set hist \<Longrightarrow>
   map (\<lambda>(k, n). if k = key then (k, n + 1) else (k, n)) hist = hist"
  by (induction hist) auto

lemma sum_bump_present:
  "distinct (map fst hist) \<Longrightarrow> key \<in> fst ` set hist \<Longrightarrow>
   sum_list (map snd (map (\<lambda>(k, n). if k = key then (k, n + 1) else (k, n)) hist))
     = sum_list (map snd hist) + (1::int)"
proof (induction hist)
  case Nil
  then show ?case by simp
next
  case (Cons e hist)
  obtain k v where e: "e = (k, v)" by (cases e)
  show ?case
  proof (cases "k = key")
    case True
    with Cons.prems e have "key \<notin> fst ` set hist" by auto
    then show ?thesis using True e by (simp add: bump_absent)
  next
    case False
    with Cons e show ?thesis by auto
  qed
qed

lemma fst_bump [simp]:
  "map fst (map (\<lambda>(k, n). if k = key then (k, n + 1) else (k, n)) hist) = map fst hist"
  by (induction hist) auto

lemma sum_tally:
  "distinct (map fst hist) \<Longrightarrow> sum_list (map snd (tally hist key)) = sum_list (map snd hist) + 1"
proof (cases "map_of hist key")
  case None
  then show ?thesis by (simp add: tally_def)
next
  case (Some v)
  assume d: "distinct (map fst hist)"
  from Some have "key \<in> fst ` set hist"
    by (metis map_of_eq_None_iff option.distinct(1))
  with d Some show ?thesis
    by (simp add: tally_def sum_bump_present del: map_map)
qed

lemma distinct_tally:
  assumes "distinct (map fst hist)"
  shows "distinct (map fst (tally hist key))"
proof (cases "map_of hist key")
  case None
  then have "key \<notin> fst ` set hist"
    by (simp add: map_of_eq_None_iff)
  with assms None show ?thesis
    by (simp add: tally_def)
next
  case (Some v)
  with assms show ?thesis
    by (simp add: tally_def del: map_map)
qed

lemma positive_tally:
  "list_all (\<lambda>(k, v). 1 \<le> v) hist \<Longrightarrow> list_all (\<lambda>(k, v). 1 \<le> v) (tally hist key)"
  by (cases "map_of hist key") (fastforce simp: tally_def list_all_iff split: if_splits)+

lemma keys_tally: "set (map fst (tally hist key)) = insert key (set (map fst hist))"
proof (cases "map_of hist key")
  case None
  then show ?thesis by (simp add: tally_def)
next
  case (Some v)
  then have "key \<in> fst ` set hist"
    by (metis map_of_eq_None_iff option.distinct(1))
  with Some show ?thesis
    by (auto simp: tally_def simp del: map_map)
qed

lemma foldl_tally:
  "distinct (map fst hist) \<Longrightarrow> list_all (\<lambda>(k, v). 1 \<le> v) hist \<Longrightarrow>
   distinct (map fst (foldl tally hist keys))
   \<and> list_all (\<lambda>(k, v). 1 \<le> v) (foldl tally hist keys)
   \<and> sum_list (map snd (foldl tally hist keys)) = sum_list (map snd hist) + int (length keys)
   \<and> set (map fst (foldl tally hist keys)) = set (map fst hist) \<union> set keys"
proof (induction keys arbitrary: hist)
  case Nil
  then show ?case by simp
next
  case (Cons key keys)
  from Cons.prems have "distinct (map fst (tally hist key))"
    and "list_all (\<lambda>(k, v). 1 \<le> v) (tally hist key)"
    by (simp_all add: distinct_tally positive_tally)
  from Cons.IH [OF this] Cons.prems(1) show ?case
    by (simp add: sum_tally keys_tally del: set_map)
qed

lemma initialize_eq: "initialize n = (\<lambda>i. if i = 0 then 1 else 0)"
  by (auto simp: initialize_def fun_eq_iff)

lemma hadamard_ground:
  "apply_gate (Hadamard 0) (initialize n) = (\<lambda>i. if i < 2 then 1 / complex_of_real (sqrt 2) else 0)"
proof
  fix i :: nat
  have "set_bit 0 i \<noteq> 0"
    by (simp add: set_bit_0)
  moreover have "unset_bit 0 i = 0 \<longleftrightarrow> i < 2"
    by (simp add: unset_bit_0) presburger
  ultimately show "apply_gate (Hadamard 0) (initialize n) i
                     = (if i < 2 then 1 / complex_of_real (sqrt 2) else 0)"
    by (simp add: initialize_eq)
qed

lemma flip_second_bit_small: "odd i \<Longrightarrow> flip_bit (Suc 0) i < 2 \<longleftrightarrow> i = (3::nat)"
  by (simp add: flip_bit_Suc flip_bit_0) presburger

lemma bell_state_built:
  "apply_gate (ControlledX 0 1) (apply_gate (Hadamard 0) (initialize n)) = bell_state"
proof
  fix i :: nat
  define \<phi> where "\<phi> = apply_gate (Hadamard 0) (initialize n)"
  have \<phi>: "\<phi> j = (if j < 2 then 1 / complex_of_real (sqrt 2) else 0)" for j
    unfolding \<phi>_def hadamard_ground by (rule refl)
  have cx: "apply_gate (ControlledX 0 1) \<phi> i = (if odd i then \<phi> (flip_bit (Suc 0) i) else \<phi> i)"
    by (simp add: bit_0)
  show "apply_gate (ControlledX 0 1) (apply_gate (Hadamard 0) (initialize n)) i = bell_state i"
  proof (cases "odd i")
    case True
    then have "i \<noteq> 0"
      by (cases i) simp_all
    with True show ?thesis
      unfolding \<phi>_def [symmetric] cx
      by (simp add: \<phi> bell_state_def flip_second_bit_small)
  next
    case False
    then have "i < 2 \<longleftrightarrow> i = 0"
      by presburger
    with False show ?thesis
      unfolding \<phi>_def [symmetric] cx
      by (auto simp: \<phi> bell_state_def)
  qed
qed

lemma born_bell_state:
  "born bell_state i = (if i = 0 \<or> i = 3 then 1 / 2 else 0)"
  by (simp add: born_def bell_state_def norm_divide power_divide)

lemma foldl_apply_measures:
  "foldl (\<lambda>\<psi> g. apply_gate g \<psi>) \<psi> (measure_gates n) = \<psi>"
  by (induction n) (simp_all add: measure_gates_def)

lemma final_state_bell:
  "data c = [Hadamard 0, ControlledX 0 1] @ measure_gates k \<Longrightarrow> final_state c = bell_state"
  using bell_state_built [of "nat (qubits c)"]
  by (simp add: final_state_def foldl_apply_measures)

lemma measured_qubit_append:
  "measured_qubit (gs @ hs) b =
     (case measured_qubit hs b of Some q \<Rightarrow> Some q | None \<Rightarrow> measured_qubit gs b)"
  by (induction gs b rule: measured_qubit.induct) (auto split: option.splits)

lemma measured_qubit_measure_gates:
  "measured_qubit (measure_gates n) b = (if b < n then Some b else None)"
  by (induction n) (auto simp: measure_gates_def measured_qubit_append)

lemma format_outcome_measured:
  "data c = gs @ measure_gates (nat (clbits c)) \<Longrightarrow>
   format_outcome c i
     = map (\<lambda>b. if bit i b then CHR ''1'' else CHR ''0'') (rev [0..<nat (clbits c)])"
  by (simp add: format_outcome_def py_range_def measured_qubit_append
      measured_qubit_measure_gates)

lemma bit_3_nat: "bit (3::nat) b \<longleftrightarrow> b < 2"
proof (cases b)
  case 0
  then show ?thesis by (simp add: bit_0)
next
  case (Suc c)
  then show ?thesis by (cases c) (simp_all add: bit_Suc bit_0)
qed

lemma bits_of_3:
  assumes "2 \<le> n"
  shows "map (\<lambda>b. if bit (3::nat) b then CHR ''1'' else CHR ''0'') (rev [0..<n])
           = replicate (n - 2) (CHR ''0'') @ ''11''"
proof -
  from assms have "[0..<n] = [0..<2] @ [2..<n]"
    by (metis le0 upt_add_eq_append le_add_diff_inverse)
  moreover have "[0..<2] = [0, Suc 0]"
    by (simp add: upt_conv_Cons)
  moreover have "map (\<lambda>b. if bit (3::nat) b then CHR ''1'' else CHR ''0'') [2..<n]
                   = replicate (n - 2) (CHR ''0'')"
    by (rule nth_equalityI) (simp_all add: bit_3_nat)
  ultimately have "map (\<lambda>b. if bit (3::nat) b then CHR ''1'' else CHR ''0'') [0..<n]
                     = ''11'' @ replicate (n - 2) (CHR ''0'')"
    by (simp add: bit_3_nat)
  then have "rev (map (\<lambda>b. if bit (3::nat) b then CHR ''1'' else CHR ''0'') [0..<n])
               = rev (''11'' @ replicate (n - 2) (CHR ''0''))"
    by (rule arg_cong)
  then show ?thesis
    by (simp add: rev_map)
qed

lemma run_ok:
  assumes "1 \<le> shots" and "list_all (in_range (circuit s)) (data (circuit s))"
  shows "run s shots draw
           = Inr (foldl tally [] (map (\<lambda>k. format_outcome (circuit s) (draw k)) [0..<nat shots]))"
  using assms by (simp add: run_def AerSimulator_run_def)

lemma format_outcome_bitstring:
  "length (format_outcome c i) = nat (clbits c)
   \<and> set (format_outcome c i) \<subseteq> {CHR ''0'', CHR ''1''}"
  by (auto simp: format_outcome_def py_range_def split: option.splits)

lemma keys_of_run:
  assumes "1 \<le> shots" and "list_all (in_range (circuit s)) (data (circuit s))"
  shows "\<exists>hist. run s shots draw = Inr hist
           \<and> set (map fst hist) = (\<lambda>k. format_outcome (circuit s) (draw k)) ` {..<nat shots}"
proof -
  define keys where "keys = map (\<lambda>k. format_outcome (circuit s) (draw k)) [0..<nat shots]"
  have "run s shots draw = Inr (foldl tally [] keys)"
    unfolding keys_def using assms by (rule run_ok)
  moreover have "set (map fst (foldl tally [] keys)) = set keys"
    using foldl_tally [of "[]" keys] by simp
  moreover have "set keys = (\<lambda>k. format_outcome (circuit s) (draw k)) ` {..<nat shots}"
    unfolding keys_def by (simp add: lessThan_atLeast0)
  ultimately show ?thesis
    by (intro exI [of _ "foldl tally [] keys"]) simp
qed

lemma run_bell_three_shots:
  "run \<lparr>num_qubits = 2,
        circuit = \<lparr>qubits = 2, clbits = 2,
                   data = [Hadamard 0, ControlledX 0 1, Measure 0 0, Measure 1 1]\<rparr>\<rparr>
     3 (\<lambda>k. if k = 1 then 3 else 0)
   = Inr [(''00'', 2), (''11'', 1)]"
  by (simp add: run_def AerSimulator_run_def in_range_def format_outcome_def py_range_def
      tally_def upt_conv_Cons bit_3_nat bit_0)

lemma run_bell_three_qubits:
  "run \<lparr>num_qubits = 3,
          circuit = \<lparr>qubits = 3, clbits = 3,
            data = [Hadamard 0, ControlledX 0 1, Measure 0 0, Measure 1 1, Measure 2 2]\<rparr>\<rparr>
     2 (\<lambda>k. if k = 1 then 3 else 0)
   = Inr [(''000'', 1), (''011'', 1)]"
  by (simp add: run_def AerSimulator_run_def in_range_def format_outcome_def py_range_def
      tally_def upt_conv_Cons bit_3_nat bit_0)

lemma positive_born_bell: "0 < born bell_state i \<longleftrightarrow> i = 0 \<or> i = 3"
  by (simp add: born_bell_state)

lemma bell_experiment_built:
  assumes "2 \<le> qubits (circuit s)" and "num_qubits s = qubits (circuit s)"
    and "clbits (circuit s) = qubits (circuit s)"
  shows "and_then (create_bell_pair s) measure_all
           = Inr (sim_with_gates s
                   ([Hadamard 0, ControlledX 0 1] @ measure_gates (nat (qubits (circuit s)))))"
  using assms by (simp add: create_bell_pair_ok measure_all_ok)

lemma bell_keys:
  assumes "2 \<le> clbits c" and "data c = [Hadamard 0, ControlledX 0 1] @ measure_gates (nat (clbits c))"
    and "shots \<ge> 1" and "proper_draws c shots draw" and "k < nat shots"
  shows "format_outcome c (draw k)
           \<in> {replicate (nat (clbits c)) (CHR ''0''),
              replicate (nat (clbits c) - 2) (CHR ''0'') @ ''11''}"
proof -
  have "final_state c = bell_state"
    using assms(2) by (rule final_state_bell)
  with assms(4,5) have "draw k = 0 \<or> draw k = 3"
    by (simp add: proper_draws_def positive_born_bell)
  moreover have "format_outcome c i
                   = map (\<lambda>b. if bit i b then CHR ''1'' else CHR ''0'')
                       (rev [0..<nat (clbits c)])" for i
    using assms(2) by (rule format_outcome_measured)
  moreover have "2 \<le> nat (clbits c)"
    using assms(1) by simp
  ultimately show ?thesis
    by (auto simp: bits_of_3 map_replicate_const)
qed

lemma measure_gates_3: "measure_gates 3 = [Measure 0 0, Measure 1 1, Measure 2 2]"
  by (simp add: measure_gates_def upt_conv_Cons)

section \<open>\<^verbatim>\<open>measure_all\<close>\<close>

text \<open>
  C10. On a simulator whose circuit has the simulator's \<open>n\<close> qubits and \<open>n\<close> classical
  bits (as the constructor makes it; at least \<open>n\<close> of each is enough), \<^verbatim>\<open>measure_all\<close>
  returns the simulator itself, with exactly the \<open>n\<close> operations \<open>Measure i i\<close> for
  \<open>i = 0, ..., n - 1\<close> added to the end of the log in increasing order, and nothing else
  changed.
\<close>

theorem measure_all_appends:
  assumes "num_qubits s \<le> qubits (circuit s)" and "num_qubits s \<le> clbits (circuit s)"
  shows "measure_all s =
           Inr (s\<lparr>circuit := (circuit s)\<lparr>data := data (circuit s) @
                  map (\<lambda>i. Measure i i) [0..<nat (num_qubits s)]\<rparr>\<rparr>)
         \<and> length (map (\<lambda>i. Measure i i) [0..<nat (num_qubits s)]) = nat (num_qubits s)"
proof -
  have "list_all (\<lambda>i. in_range (circuit s) (Measure i i)) (py_range (num_qubits s))"
    using assms by (auto simp: list_all_iff py_range_def in_range_Measure)
  then have "measure_all s = Inr (sim_with_gates s (map (\<lambda>i. Measure i i) (py_range (num_qubits s))))"
    unfolding measure_all_def circuit_measure_def by (rule for_each_on_circuit)
  then show ?thesis by (simp add: sim_with_gates_def with_gates_def py_range_def)
qed

theorem measure_all_appends_witness:
  "measure_all \<lparr>num_qubits = 3, circuit = \<lparr>qubits = 3, clbits = 3, data = [Hadamard 0]\<rparr>\<rparr>
     = Inr \<lparr>num_qubits = 3, circuit = \<lparr>qubits = 3, clbits = 3,
             data = [Hadamard 0, Measure 0 0, Measure 1 1, Measure 2 2]\<rparr>\<rparr>"
  using measure_all_appends
    [of "\<lparr>num_qubits = 3, circuit = \<lparr>qubits = 3, clbits = 3, data = [Hadamard 0]\<rparr>\<rparr>"]
  by (simp add: upt_conv_Cons)

section \<open>\<^verbatim>\<open>quantum_teleportation\<close>\<close>

text \<open>
  C2. On a simulator with the three qubits the protocol assumes (and two classical bits),
  \<^verbatim>\<open>quantum_teleportation([a, b])\<close> appends exactly: PauliX on qubit 0 if \<open>a \<noteq> 0\<close>,
  RotationZ by \<open>b\<close> on qubit 0 if \<open>b \<noteq> 0\<close>, Hadamard on qubit 1, ControlledX(1,2),
  ControlledX(0,1), Hadamard on qubit 0, and the measurements of qubit 0 into bit 0 and of
  qubit 1 into bit 1. The two measurements are the last operations, and the only operation
  on qubit 2 is the ControlledX(1,2) before them: no correction follows the measurements.
\<close>

theorem quantum_teleportation_gates:
  assumes "3 \<le> qubits (circuit s)" and "2 \<le> clbits (circuit s)"
  shows "quantum_teleportation s (a, b) =
           Inr (s\<lparr>circuit := (circuit s)\<lparr>data := data (circuit s) @ teleportation_gates a b\<rparr>\<rparr>)
         \<and> filter (\<lambda>g. 2 \<in> set (gate_qubits g)) (teleportation_gates a b) = [ControlledX 1 2]
         \<and> drop (length (teleportation_gates a b) - 2) (teleportation_gates a b)
             = [Measure 0 0, Measure 1 1]"
  using teleport_ok [OF assms, of a b]
  by (simp add: teleportation_gates_def sim_with_gates_def with_gates_def)

theorem quantum_teleportation_gates_witness:
  "quantum_teleportation \<lparr>num_qubits = 3, circuit = \<lparr>qubits = 3, clbits = 3, data = []\<rparr>\<rparr> (1, 1 / 2)
     = Inr \<lparr>num_qubits = 3, circuit = \<lparr>qubits = 3, clbits = 3,
             data = [PauliX 0, RotationZ 0 (1 / 2), Hadamard 1, ControlledX 1 2,
                     ControlledX 0 1, Hadamard 0, Measure 0 0, Measure 1 1]\<rparr>\<rparr>"
  using quantum_teleportation_gates
    [of "\<lparr>num_qubits = 3, circuit = \<lparr>qubits = 3, clbits = 3, data = []\<rparr>\<rparr>" 1 "1 / 2"]
  by (simp add: teleportation_gates_def)

section \<open>The token encodings\<close>

text \<open>
  C3. For every integer token and every qubit count \<open>n \<ge> 1\<close> (the circuit having the
  processor's \<open>n\<close> qubits), the amplitude encoding appends exactly RotationY on qubit 0
  with the angle \<open>((token mod 2^n) / 2^n) * pi\<close>, followed by ControlledX(i, i+1) for
  \<open>i = 0, ..., n - 2\<close> in increasing order; the angle lies in \<open>[0, pi)\<close>.
\<close>

theorem amplitude_encoding_gates:
  assumes "1 \<le> n_qubits p" and "n_qubits p \<le> qubits (circuit (quantum_sim p))"
  shows "amplitude_encoding p token_id =
           Inr (proc_with_gates p
                 (RotationY 0 (real_of_int (token_id mod 2 ^ nat (n_qubits p))
                                 / 2 ^ nat (n_qubits p) * pi)
                  # map (\<lambda>i. ControlledX i (i + 1)) [0..<nat (n_qubits p) - 1]))
         \<and> 0 \<le> real_of_int (token_id mod 2 ^ nat (n_qubits p)) / 2 ^ nat (n_qubits p) * pi
         \<and> real_of_int (token_id mod 2 ^ nat (n_qubits p)) / 2 ^ nat (n_qubits p) * pi < pi"
  using amplitude_encoding_ok [OF assms, of token_id]
    amplitude_angle_bounds [of token_id "nat (n_qubits p)"]
  by (simp add: amplitude_gates_def cnot_gates_def)

theorem amplitude_encoding_gates_witness:
  "amplitude_encoding
     \<lparr>n_qubits = 2,
      quantum_sim = \<lparr>num_qubits = 2, circuit = \<lparr>qubits = 2, clbits = 2, data = []\<rparr>\<rparr>\<rparr> 5
   = Inr \<lparr>n_qubits = 2,
          quantum_sim = \<lparr>num_qubits = 2, circuit = \<lparr>qubits = 2, clbits = 2,
                           data = [RotationY 0 (pi / 4), ControlledX 0 1]\<rparr>\<rparr>\<rparr>"
  using amplitude_encoding_gates
    [of "\<lparr>n_qubits = 2,
          quantum_sim = \<lparr>num_qubits = 2, circuit = \<lparr>qubits = 2, clbits = 2, data = []\<rparr>\<rparr>\<rparr>" 5]
  by (simp add: proc_with_gates_def sim_with_gates_def with_gates_def)

text \<open>
  C4. For every integer token and every qubit count \<open>n \<ge> 1\<close>, the hybrid encoding is
  the amplitude encoding of \<open>token mod 2^(n-1)\<close> followed, on the same circuit, by the
  phase encoding of \<open>token div 2^(n-1)\<close>: both succeed, and the circuit is the one the
  processor had, with the amplitude gates and then the phase gates (Hadamard on every
  qubit, RotationZ on qubit 0 with angle \<open>((part mod 2^n) / 2^n) * 2 * pi\<close>, the chain of
  ControlledX) appended.
\<close>

theorem hybrid_encoding_gates:
  assumes "1 \<le> n_qubits p" and "n_qubits p \<le> qubits (circuit (quantum_sim p))"
  shows "\<exists>p1 p2.
           amplitude_encoding p (token_id mod 2 ^ (nat (n_qubits p) - 1)) = Inr p1
         \<and> p1 = proc_with_gates p
                  (amplitude_gates (nat (n_qubits p)) (token_id mod 2 ^ (nat (n_qubits p) - 1)))
         \<and> phase_encoding p1 (token_id div 2 ^ (nat (n_qubits p) - 1)) = Inr p2
         \<and> hybrid_encoding p token_id = Inr p2
         \<and> p2 = proc_with_gates p
                  (amplitude_gates (nat (n_qubits p)) (token_id mod 2 ^ (nat (n_qubits p) - 1))
                   @ phase_gates (nat (n_qubits p)) (token_id div 2 ^ (nat (n_qubits p) - 1)))"
proof -
  have e: "nat (n_qubits p - 1) = nat (n_qubits p) - 1"
    by simp
  show ?thesis
    using assms
    by (simp add: hybrid_encoding_def Let_def amplitude_encoding_ok phase_encoding_ok pow2_def e)
qed

theorem hybrid_encoding_gates_witness:
  "hybrid_encoding
     \<lparr>n_qubits = 2,
      quantum_sim = \<lparr>num_qubits = 2, circuit = \<lparr>qubits = 2, clbits = 2, data = []\<rparr>\<rparr>\<rparr> 5
   = Inr \<lparr>n_qubits = 2,
          quantum_sim = \<lparr>num_qubits = 2, circuit = \<lparr>qubits = 2, clbits = 2,
                           data = [RotationY 0 (pi / 4), ControlledX 0 1,
                                   Hadamard 0, Hadamard 1, RotationZ 0 pi, ControlledX 0 1]\<rparr>\<rparr>\<rparr>"
  using hybrid_encoding_gates
    [of "\<lparr>n_qubits = 2,
          quantum_sim = \<lparr>num_qubits = 2, circuit = \<lparr>qubits = 2, clbits = 2, data = []\<rparr>\<rparr>\<rparr>" 5]
  by (auto simp: proc_with_gates_def sim_with_gates_def with_gates_def amplitude_gates_def
      phase_gates_def cnot_gates_def upt_conv_Cons)

section \<open>Constructing a simulator\<close>

text \<open>
  C8, as stated, fails for the qubit count 0: the constructor has no check of its own, and
  an empty register is a register. \<^verbatim>\<open>QuantumSimulator(0)\<close> returns a simulator over
  the empty circuit.
\<close>

theorem QuantumSimulator_init_accepts_zero:
  "QuantumSimulator_init 0
     = Inr \<lparr>num_qubits = 0, circuit = \<lparr>qubits = 0, clbits = 0, data = []\<rparr>\<rparr>
   \<and> QuantumSimulator_init 0 \<noteq> Inl ConfigurationError"
  by (simp add: QuantumSimulator_init_def QuantumCircuit_new_def)

text \<open>
  C8, amended. A negative qubit count is rejected with a ConfigurationError, by the circuit
  constructor; every qubit count \<open>n \<ge> 0\<close>, zero included, is accepted and gives a
  simulator with \<open>num_qubits = n\<close> over the empty circuit of \<open>n\<close> qubits and \<open>n\<close>
  classical bits.
\<close>

theorem QuantumSimulator_init_rejects_negative_only:
  "(n < 0 \<longrightarrow> QuantumSimulator_init n = Inl ConfigurationError)
   \<and> (0 \<le> n \<longrightarrow> QuantumSimulator_init n
         = Inr \<lparr>num_qubits = n, circuit = \<lparr>qubits = n, clbits = n, data = []\<rparr>\<rparr>)"
  by (simp add: QuantumSimulator_init_def QuantumCircuit_new_def)

theorem QuantumSimulator_init_rejects_negative_only_witness:
  "QuantumSimulator_init (- 1) = Inl ConfigurationError
   \<and> QuantumSimulator_init 2
         = Inr \<lparr>num_qubits = 2, circuit = \<lparr>qubits = 2, clbits = 2, data = []\<rparr>\<rparr>"
  using QuantumSimulator_init_rejects_negative_only [of "- 1"]
    QuantumSimulator_init_rejects_negative_only [of 2]
  by simp

section \<open>\<^verbatim>\<open>process_token\<close>\<close>

text \<open>
  C6. For every scheme name other than amplitude, phase and hybrid, and every token,
  \<^verbatim>\<open>process_token\<close> does what it does for the scheme hybrid: the same result for the
  same random draws, the same circuit. It does not fail: with at least one qubit the call
  returns, and the circuit it built is the hybrid encoding of the token followed by the
  measurement of every qubit.
\<close>

theorem process_token_unknown_scheme:
  assumes "scheme \<notin> {''amplitude'', ''phase'', ''hybrid''}"
  shows "process_token p token_id scheme draw = process_token p token_id ''hybrid'' draw
         \<and> (1 \<le> n_qubits p \<longrightarrow>
              (\<exists>p' freqs. process_token p token_id scheme draw = Inr (p', freqs)
                 \<and> circuit (quantum_sim p')
                     = \<lparr>qubits = n_qubits p, clbits = n_qubits p,
                        data = hybrid_gates (nat (n_qubits p)) token_id
                                 @ measure_gates (nat (n_qubits p))\<rparr>))"
proof -
  from assms have none: "encoding_schemes scheme = None"
    by (simp add: encoding_schemes_def)
  have "encoding_schemes ''hybrid'' = Some hybrid_encoding"
    by (simp add: encoding_schemes_def)
  with none have same: "process_token p token_id scheme draw
                          = process_token p token_id ''hybrid'' draw"
    by (simp add: process_token_def)
  have "encoding_gates scheme n token_id = hybrid_gates n token_id" for n
    using assms by (simp add: encoding_gates_def)
  then show ?thesis
    using same by (simp add: process_token_ok token_circuit_def encoding_gates_def)
qed

theorem process_token_unknown_scheme_witness:
  "''qft'' \<notin> {''amplitude'', ''phase'', ''hybrid''}
   \<and> process_token
       \<lparr>n_qubits = 2,
        quantum_sim = \<lparr>num_qubits = 2, circuit = \<lparr>qubits = 2, clbits = 2, data = []\<rparr>\<rparr>\<rparr>
       5 ''qft'' (\<lambda>k. 0)
     = process_token
       \<lparr>n_qubits = 2,
        quantum_sim = \<lparr>num_qubits = 2, circuit = \<lparr>qubits = 2, clbits = 2, data = []\<rparr>\<rparr>\<rparr>
       5 ''hybrid'' (\<lambda>k. 0)
   \<and> process_token
       \<lparr>n_qubits = 2,
        quantum_sim = \<lparr>num_qubits = 2, circuit = \<lparr>qubits = 2, clbits = 2, data = []\<rparr>\<rparr>\<rparr>
       5 ''qft'' (\<lambda>k. 0)
     = Inr (\<lparr>n_qubits = 2,
             quantum_sim = \<lparr>num_qubits = 2, circuit = \<lparr>qubits = 2, clbits = 2,
               data = [RotationY 0 (pi / 4), ControlledX 0 1,
                       Hadamard 0, Hadamard 1, RotationZ 0 pi, ControlledX 0 1,
                       Measure 0 0, Measure 1 1]\<rparr>\<rparr>\<rparr>,
            [(''00'', 1)])"
proof -
  have n: "''qft'' \<notin> {''amplitude'', ''phase'', ''hybrid''}"
    by simp
  have circ: "token_circuit 2 5 ''hybrid''
                = \<lparr>qubits = 2, clbits = 2,
                   data = [RotationY 0 (pi / 4), ControlledX 0 1,
                           Hadamard 0, Hadamard 1, RotationZ 0 pi, ControlledX 0 1,
                           Measure 0 0, Measure 1 1]\<rparr>"
    by (simp add: token_circuit_def encoding_gates_def hybrid_gates_def amplitude_gates_def
        phase_gates_def cnot_gates_def measure_gates_def upt_conv_Cons)
  have "process_token
       \<lparr>n_qubits = 2,
        quantum_sim = \<lparr>num_qubits = 2, circuit = \<lparr>qubits = 2, clbits = 2, data = []\<rparr>\<rparr>\<rparr>
       5 ''hybrid'' (\<lambda>k. 0)
     = Inr (\<lparr>n_qubits = 2,
             quantum_sim = \<lparr>num_qubits = 2, circuit = \<lparr>qubits = 2, clbits = 2,
               data = [RotationY 0 (pi / 4), ControlledX 0 1,
                       Hadamard 0, Hadamard 1, RotationZ 0 pi, ControlledX 0 1,
                       Measure 0 0, Measure 1 1]\<rparr>\<rparr>\<rparr>,
            [(''00'', 1)])"
    by (simp add: process_token_ok circ histogram_all_zero_draws numeral_2_eq_2)
  with process_token_unknown_scheme [OF n] n show ?thesis
    by simp
qed

text \<open>
  C9. Let a call of \<^verbatim>\<open>process_token\<close> with \<open>(token, scheme)\<close> return, and let any
  run of further calls follow it on the same processor. Then the same call again returns
  the very same result for the same draws, and for any other draws it builds the same
  circuit, hence the same Born distribution; that circuit is a function of the token, the
  scheme and the qubit count alone.
\<close>

theorem process_token_history_independent:
  assumes "process_token p token_id scheme draw = Inr (p1, freqs1)"
      and "process_calls p1 calls = Inr p2"
  shows "process_token p2 token_id scheme draw = Inr (p1, freqs1)
         \<and> (\<exists>p3 freqs3. process_token p2 token_id scheme draw' = Inr (p3, freqs3)
               \<and> circuit (quantum_sim p3) = circuit (quantum_sim p1)
               \<and> born (final_state (circuit (quantum_sim p3)))
                   = born (final_state (circuit (quantum_sim p1))))
         \<and> circuit (quantum_sim p1) = token_circuit (n_qubits p) token_id scheme"
proof -
  from process_token_n_qubits [OF assms(1)]
  have n1: "n_qubits p1 = n_qubits p" and pos: "1 \<le> n_qubits p"
    by simp_all
  from process_calls_n_qubits [OF assms(2)] n1 have n2: "n_qubits p2 = n_qubits p"
    by simp
  have again: "process_token p2 token_id scheme d = process_token p token_id scheme d" for d
    using n2 by (rule process_token_reads_n_qubits_only)
  have built: "circuit (quantum_sim p1) = token_circuit (n_qubits p) token_id scheme"
    using assms(1) pos by (auto simp: process_token_ok)
  show ?thesis
    using assms(1) pos built by (simp add: again) (simp add: process_token_ok)
qed

theorem process_token_history_independent_witness:
  "process_token
     \<lparr>n_qubits = 2,
      quantum_sim = \<lparr>num_qubits = 2, circuit = \<lparr>qubits = 2, clbits = 2, data = []\<rparr>\<rparr>\<rparr>
     5 ''phase'' (\<lambda>k. 0)
   = Inr (\<lparr>n_qubits = 2,
           quantum_sim = \<lparr>num_qubits = 2, circuit = \<lparr>qubits = 2, clbits = 2,
             data = [Hadamard 0, Hadamard 1, RotationZ 0 (pi / 2), ControlledX 0 1,
                     Measure 0 0, Measure 1 1]\<rparr>\<rparr>\<rparr>,
          [(''00'', 1)])
   \<and> process_calls
       \<lparr>n_qubits = 2,
        quantum_sim = \<lparr>num_qubits = 2, circuit = \<lparr>qubits = 2, clbits = 2,
          data = [Hadamard 0, Hadamard 1, RotationZ 0 (pi / 2), ControlledX 0 1,
                  Measure 0 0, Measure 1 1]\<rparr>\<rparr>\<rparr>
       [(7, ''amplitude'', \<lambda>k. 0)]
     = Inr \<lparr>n_qubits = 2,
            quantum_sim = \<lparr>num_qubits = 2, circuit = \<lparr>qubits = 2, clbits = 2,
              data = [RotationY 0 (3 * pi / 4), ControlledX 0 1,
                      Measure 0 0, Measure 1 1]\<rparr>\<rparr>\<rparr>
   \<and> process_token
       \<lparr>n_qubits = 2,
        quantum_sim = \<lparr>num_qubits = 2, circuit = \<lparr>qubits = 2, clbits = 2,
          data = [RotationY 0 (3 * pi / 4), ControlledX 0 1,
                  Measure 0 0, Measure 1 1]\<rparr>\<rparr>\<rparr>
       5 ''phase'' (\<lambda>k. 0)
     = Inr (\<lparr>n_qubits = 2,
             quantum_sim = \<lparr>num_qubits = 2, circuit = \<lparr>qubits = 2, clbits = 2,
               data = [Hadamard 0, Hadamard 1, RotationZ 0 (pi / 2), ControlledX 0 1,
                       Measure 0 0, Measure 1 1]\<rparr>\<rparr>\<rparr>,
            [(''00'', 1)])"
proof -
  have phase: "token_circuit 2 5 ''phase''
                = \<lparr>qubits = 2, clbits = 2,
                   data = [Hadamard 0, Hadamard 1, RotationZ 0 (pi / 2), ControlledX 0 1,
                           Measure 0 0, Measure 1 1]\<rparr>"
    by (simp add: token_circuit_def encoding_gates_def phase_gates_def cnot_gates_def
        measure_gates_def upt_conv_Cons)
  have amplitude: "token_circuit 2 7 ''amplitude''
                = \<lparr>qubits = 2, clbits = 2,
                   data = [RotationY 0 (3 * pi / 4), ControlledX 0 1,
                           Measure 0 0, Measure 1 1]\<rparr>"
    by (simp add: token_circuit_def encoding_gates_def amplitude_gates_def cnot_gates_def
        measure_gates_def upt_conv_Cons)
  have first: "process_token
     \<lparr>n_qubits = 2,
      quantum_sim = \<lparr>num_qubits = 2, circuit = \<lparr>qubits = 2, clbits = 2, data = []\<rparr>\<rparr>\<rparr>
     5 ''phase'' (\<lambda>k. 0)
   = Inr (\<lparr>n_qubits = 2,
           quantum_sim = \<lparr>num_qubits = 2, circuit = \<lparr>qubits = 2, clbits = 2,
             data = [Hadamard 0, Hadamard 1, RotationZ 0 (pi / 2), ControlledX 0 1,
                     Measure 0 0, Measure 1 1]\<rparr>\<rparr>\<rparr>,
          [(''00'', 1)])"
    by (simp add: process_token_ok phase histogram_all_zero_draws numeral_2_eq_2)
  have between: "process_calls
       \<lparr>n_qubits = 2,
        quantum_sim = \<lparr>num_qubits = 2, circuit = \<lparr>qubits = 2, clbits = 2,
          data = [Hadamard 0, Hadamard 1, RotationZ 0 (pi / 2), ControlledX 0 1,
                  Measure 0 0, Measure 1 1]\<rparr>\<rparr>\<rparr>
       [(7, ''amplitude'', \<lambda>k. 0)]
     = Inr \<lparr>n_qubits = 2,
            quantum_sim = \<lparr>num_qubits = 2, circuit = \<lparr>qubits = 2, clbits = 2,
              data = [RotationY 0 (3 * pi / 4), ControlledX 0 1,
                      Measure 0 0, Measure 1 1]\<rparr>\<rparr>\<rparr>"
    by (simp add: process_token_ok amplitude)
  from process_token_history_independent [OF first between] first between
  show ?thesis
    by simp
qed

section \<open>\<^verbatim>\<open>run\<close>\<close>

text \<open>
  C5. For every circuit whose operations are in range and every shot count of at least 1,
  whatever the draws, \<^verbatim>\<open>run\<close> returns a histogram: a dictionary (no key twice) from
  bitstrings, one character \<open>0\<close> or \<open>1\<close> per classical bit, to non-negative integer
  counts whose sum is the shot count exactly.
\<close>

theorem run_counts_sum_to_shots:
  assumes "1 \<le> shots" and "list_all (in_range (circuit s)) (data (circuit s))"
  shows "\<exists>hist. run s shots draw = Inr hist
           \<and> sum_list (map snd hist) = shots
           \<and> list_all (\<lambda>(key, count). 0 \<le> count) hist
           \<and> distinct (map fst hist)
           \<and> list_all (\<lambda>(key, count). length key = nat (clbits (circuit s))
                                        \<and> set key \<subseteq> {CHR ''0'', CHR ''1''}) hist"
proof -
  define keys where "keys = map (\<lambda>k. format_outcome (circuit s) (draw k)) [0..<nat shots]"
  define hist where "hist = foldl tally [] keys"
  have r: "run s shots draw = Inr hist"
    using assms by (simp add: run_ok hist_def keys_def)
  from foldl_tally [of "[]" keys]
  have d: "distinct (map fst hist)" and p: "list_all (\<lambda>(k, v). 1 \<le> v) hist"
    and t: "sum_list (map snd hist) = int (length keys)" and k: "set (map fst hist) = set keys"
    by (simp_all add: hist_def)
  from t assms(1) have "sum_list (map snd hist) = shots"
    by (simp add: keys_def)
  moreover from p have "list_all (\<lambda>(key, count). 0 \<le> count) hist"
    by (auto simp: list_all_iff)
  moreover have "list_all (\<lambda>(key, count). length key = nat (clbits (circuit s))
                                        \<and> set key \<subseteq> {CHR ''0'', CHR ''1''}) hist"
  proof -
    have "length key = nat (clbits (circuit s)) \<and> set key \<subseteq> {CHR ''0'', CHR ''1''}"
      if "key \<in> set keys" for key
      using that format_outcome_bitstring [of "circuit s"] by (auto simp: keys_def)
    with k show ?thesis
      by (force simp: list_all_iff)
  qed
  ultimately show ?thesis
    using r d by blast
qed

theorem run_counts_sum_to_shots_witness:
  "run \<lparr>num_qubits = 2,
        circuit = \<lparr>qubits = 2, clbits = 2,
                   data = [Hadamard 0, ControlledX 0 1, Measure 0 0, Measure 1 1]\<rparr>\<rparr>
     3 (\<lambda>k. if k = 1 then 3 else 0)
   = Inr [(''00'', 2), (''11'', 1)]
   \<and> sum_list (map snd [(''00'', 2), (''11'', 1 :: int)]) = 3"
  using run_counts_sum_to_shots
    [of 3 "\<lparr>num_qubits = 2,
            circuit = \<lparr>qubits = 2, clbits = 2,
                       data = [Hadamard 0, ControlledX 0 1, Measure 0 0, Measure 1 1]\<rparr>\<rparr>"
        "\<lambda>k. if k = 1 then 3 else 0"]
    run_bell_three_shots
  by (simp add: in_range_def)

text \<open>
  C7. For every shot count \<open>shots \<le> 0\<close>, \<^verbatim>\<open>run\<close> fails with InvalidShotCount and
  returns no histogram.
\<close>

theorem run_rejects_nonpositive_shots:
  "shots \<le> 0 \<Longrightarrow> run s shots draw = Inl InvalidShotCount"
  by (simp add: run_def AerSimulator_run_def)

theorem run_rejects_nonpositive_shots_witness:
  "run \<lparr>num_qubits = 2,
        circuit = \<lparr>qubits = 2, clbits = 2,
                   data = [Hadamard 0, ControlledX 0 1, Measure 0 0, Measure 1 1]\<rparr>\<rparr>
     0 (\<lambda>k. 0) = Inl InvalidShotCount
   \<and> run \<lparr>num_qubits = 2,
        circuit = \<lparr>qubits = 2, clbits = 2,
                   data = [Hadamard 0, ControlledX 0 1, Measure 0 0, Measure 1 1]\<rparr>\<rparr>
     (- 5) (\<lambda>k. 0) = Inl InvalidShotCount"
  using run_rejects_nonpositive_shots
    [of 0 "\<lparr>num_qubits = 2,
            circuit = \<lparr>qubits = 2, clbits = 2,
                       data = [Hadamard 0, ControlledX 0 1, Measure 0 0, Measure 1 1]\<rparr>\<rparr>"
        "\<lambda>k. 0"]
    run_rejects_nonpositive_shots
    [of "- 5" "\<lparr>num_qubits = 2,
            circuit = \<lparr>qubits = 2, clbits = 2,
                       data = [Hadamard 0, ControlledX 0 1, Measure 0 0, Measure 1 1]\<rparr>\<rparr>"
        "\<lambda>k. 0"]
  by simp

section \<open>\<^verbatim>\<open>create_bell_pair\<close>\<close>

text \<open>
  C1, as stated, fails on a simulator of three qubits: a key of the histogram has one
  character per classical bit, and the constructor gives the circuit as many classical bits
  as qubits. \<^verbatim>\<open>QuantumSimulator(3)\<close>, \<^verbatim>\<open>create_bell_pair()\<close>, \<^verbatim>\<open>measure_all()\<close> and
  two shots that draw the basis indices 0 and 3 (of probability 1/2 each, so proper draws)
  give the histogram with the keys \<open>000\<close> and \<open>011\<close>, neither of which is \<open>00\<close> or
  \<open>11\<close>.
\<close>

theorem bell_pair_keys_three_qubits:
  "and_then (QuantumSimulator_init 3) (\<lambda>s. and_then (create_bell_pair s) measure_all)
     = Inr \<lparr>num_qubits = 3,
          circuit = \<lparr>qubits = 3, clbits = 3,
            data = [Hadamard 0, ControlledX 0 1, Measure 0 0, Measure 1 1, Measure 2 2]\<rparr>\<rparr>
   \<and> proper_draws
         \<lparr>qubits = 3, clbits = 3,
          data = [Hadamard 0, ControlledX 0 1, Measure 0 0, Measure 1 1, Measure 2 2]\<rparr>
         2 (\<lambda>k. if k = 1 then 3 else 0)
   \<and> run \<lparr>num_qubits = 3,
          circuit = \<lparr>qubits = 3, clbits = 3,
            data = [Hadamard 0, ControlledX 0 1, Measure 0 0, Measure 1 1, Measure 2 2]\<rparr>\<rparr>
         2 (\<lambda>k. if k = 1 then 3 else 0)
       = Inr [(''000'', 1), (''011'', 1)]
   \<and> ''000'' \<notin> {''00'', ''11''}
   \<and> ''011'' \<notin> {''00'', ''11''}"
proof -
  have built: "and_then (QuantumSimulator_init 3) (\<lambda>s. and_then (create_bell_pair s) measure_all)
     = Inr \<lparr>num_qubits = 3,
          circuit = \<lparr>qubits = 3, clbits = 3,
            data = [Hadamard 0, ControlledX 0 1, Measure 0 0, Measure 1 1, Measure 2 2]\<rparr>\<rparr>"
    by (simp add: QuantumSimulator_init_eq bell_experiment_built sim_with_gates_def
        with_gates_def measure_gates_3)
  have st: "final_state \<lparr>qubits = 3, clbits = 3,
          data = [Hadamard 0, ControlledX 0 1, Measure 0 0, Measure 1 1, Measure 2 2]\<rparr>
              = bell_state"
    using final_state_bell
      [of "\<lparr>qubits = 3, clbits = 3,
          data = [Hadamard 0, ControlledX 0 1, Measure 0 0, Measure 1 1, Measure 2 2]\<rparr>" 3]
    by (simp add: measure_gates_3)
  have proper: "proper_draws
         \<lparr>qubits = 3, clbits = 3,
          data = [Hadamard 0, ControlledX 0 1, Measure 0 0, Measure 1 1, Measure 2 2]\<rparr>
         2 (\<lambda>k. if k = 1 then 3 else 0)"
    using st by (simp add: proper_draws_def positive_born_bell)
  from built proper run_bell_three_qubits show ?thesis
    by simp
qed

text \<open>
  C1, amended. On every simulator whose circuit has two or more qubits,
  \<^verbatim>\<open>create_bell_pair\<close> appends exactly Hadamard on qubit 0 followed by ControlledX with
  control 0 and target 1. On a fresh circuit the resulting state is the Bell state on
  qubits 0 and 1 (every further qubit in \<open>|0>\<close>), so the Born rule gives the outcomes
  \<open>00\<close> and \<open>11\<close> of these two qubits (indices 0 and 3) the probability 1/2 each and
  every other outcome the probability 0. Hence, on a fresh simulator of \<open>n\<close> qubits and
  \<open>n\<close> classical bits, after \<^verbatim>\<open>measure_all\<close>, for every shot count of at least 1 and
  all proper draws, every key of the histogram is \<open>n\<close> characters long, one per classical
  bit with classical bit 0 last: the all-zero key, or the key of \<open>n - 2\<close> characters
  \<open>0\<close> followed by \<open>11\<close> (\<open>000\<close> and \<open>011\<close> on three qubits). For \<open>n = 2\<close> these
  are \<open>00\<close> and \<open>11\<close>.
\<close>

theorem create_bell_pair_state_and_keys:
  assumes "2 \<le> qubits (circuit s)"
  shows "create_bell_pair s
           = Inr (s\<lparr>circuit := (circuit s)\<lparr>data := data (circuit s)
                                                   @ [Hadamard 0, ControlledX 0 1]\<rparr>\<rparr>)
         \<and> (data (circuit s) = [] \<longrightarrow>
               final_state ((circuit s)\<lparr>data := [Hadamard 0, ControlledX 0 1]\<rparr>) = bell_state)
         \<and> born bell_state 0 = 1 / 2 \<and> born bell_state 3 = 1 / 2
         \<and> born bell_state 1 = 0 \<and> born bell_state 2 = 0
         \<and> (\<forall>i. 3 < i \<longrightarrow> born bell_state i = 0)
         \<and> (data (circuit s) = [] \<and> num_qubits s = qubits (circuit s)
              \<and> clbits (circuit s) = qubits (circuit s) \<longrightarrow>
               (\<exists>s2. and_then (create_bell_pair s) measure_all = Inr s2
                  \<and> final_state (circuit s2) = bell_state
                  \<and> (1 \<le> shots \<and> proper_draws (circuit s2) shots draw \<longrightarrow>
                       (\<exists>hist. run s2 shots draw = Inr hist
                          \<and> set (map fst hist)
                              \<subseteq> {replicate (nat (qubits (circuit s))) (CHR ''0''),
                                 replicate (nat (qubits (circuit s)) - 2) (CHR ''0'') @ ''11''}))))"
proof -
  have gates: "create_bell_pair s
           = Inr (s\<lparr>circuit := (circuit s)\<lparr>data := data (circuit s)
                                                   @ [Hadamard 0, ControlledX 0 1]\<rparr>\<rparr>)"
    using create_bell_pair_ok [OF assms] by (simp add: sim_with_gates_def with_gates_def)
  have state: "final_state ((circuit s)\<lparr>data := [Hadamard 0, ControlledX 0 1]\<rparr>) = bell_state"
    using final_state_bell [of "(circuit s)\<lparr>data := [Hadamard 0, ControlledX 0 1]\<rparr>" 0]
    by (simp add: measure_gates_def)
  have run_part: "\<exists>s2. and_then (create_bell_pair s) measure_all = Inr s2
                  \<and> final_state (circuit s2) = bell_state
                  \<and> (1 \<le> shots \<and> proper_draws (circuit s2) shots draw \<longrightarrow>
                       (\<exists>hist. run s2 shots draw = Inr hist
                          \<and> set (map fst hist)
                              \<subseteq> {replicate (nat (qubits (circuit s))) (CHR ''0''),
                                 replicate (nat (qubits (circuit s)) - 2) (CHR ''0'') @ ''11''}))"
    if fresh: "data (circuit s) = []" and nq: "num_qubits s = qubits (circuit s)"
      and nc: "clbits (circuit s) = qubits (circuit s)"
  proof -
    define s2 where "s2 = sim_with_gates s
                   ([Hadamard 0, ControlledX 0 1] @ measure_gates (nat (qubits (circuit s))))"
    have built: "and_then (create_bell_pair s) measure_all = Inr s2"
      unfolding s2_def using assms nq nc by (rule bell_experiment_built)
    have d: "data (circuit s2)
               = [Hadamard 0, ControlledX 0 1] @ measure_gates (nat (clbits (circuit s2)))"
      by (simp add: s2_def fresh nc)
    have c2: "clbits (circuit s2) = qubits (circuit s)" and q2: "qubits (circuit s2) = qubits (circuit s)"
      by (simp_all add: s2_def nc)
    have st: "final_state (circuit s2) = bell_state"
      using d by (rule final_state_bell)
    have valid: "list_all (in_range (circuit s2)) (data (circuit s2))"
      using assms
      by (simp add: d c2 q2 in_range_single in_range_ControlledX in_range_measure_gates)
    have keys: "\<exists>hist. run s2 shots draw = Inr hist
                  \<and> set (map fst hist)
                      \<subseteq> {replicate (nat (qubits (circuit s))) (CHR ''0''),
                         replicate (nat (qubits (circuit s)) - 2) (CHR ''0'') @ ''11''}"
      if sh: "1 \<le> shots" and pr: "proper_draws (circuit s2) shots draw"
    proof -
      from keys_of_run [OF sh valid, of draw] obtain hist
        where r: "run s2 shots draw = Inr hist"
          and k: "set (map fst hist)
                    = (\<lambda>k. format_outcome (circuit s2) (draw k)) ` {..<nat shots}"
        by blast
      have "format_outcome (circuit s2) (draw k)
              \<in> {replicate (nat (qubits (circuit s))) (CHR ''0''),
                 replicate (nat (qubits (circuit s)) - 2) (CHR ''0'') @ ''11''}"
        if "k < nat shots" for k
        using bell_keys [of "circuit s2" shots draw k] assms d sh pr that by (simp add: c2)
      with k have "set (map fst hist)
                     \<subseteq> {replicate (nat (qubits (circuit s))) (CHR ''0''),
                        replicate (nat (qubits (circuit s)) - 2) (CHR ''0'') @ ''11''}"
        by (auto simp del: set_map)
      with r show ?thesis
        by blast
    qed
    from built st keys show ?thesis
      by blast
  qed
  show ?thesis
    using gates state run_part by (simp add: born_bell_state)
qed

theorem create_bell_pair_state_and_keys_witness:
  "(2::int) \<le> qubits (circuit \<lparr>num_qubits = 3, circuit = \<lparr>qubits = 3, clbits = 3, data = []\<rparr>\<rparr>)
   \<and> create_bell_pair \<lparr>num_qubits = 3, circuit = \<lparr>qubits = 3, clbits = 3, data = []\<rparr>\<rparr>
       = Inr \<lparr>num_qubits = 3,
              circuit = \<lparr>qubits = 3, clbits = 3, data = [Hadamard 0, ControlledX 0 1]\<rparr>\<rparr>
   \<and> final_state \<lparr>qubits = 3, clbits = 3, data = [Hadamard 0, ControlledX 0 1]\<rparr> = bell_state
   \<and> and_then (create_bell_pair \<lparr>num_qubits = 3, circuit = \<lparr>qubits = 3, clbits = 3, data = []\<rparr>\<rparr>)
         measure_all
       = Inr \<lparr>num_qubits = 3,
          circuit = \<lparr>qubits = 3, clbits = 3,
            data = [Hadamard 0, ControlledX 0 1, Measure 0 0, Measure 1 1, Measure 2 2]\<rparr>\<rparr>
   \<and> proper_draws
         \<lparr>qubits = 3, clbits = 3,
          data = [Hadamard 0, ControlledX 0 1, Measure 0 0, Measure 1 1, Measure 2 2]\<rparr>
         3 (\<lambda>k. if k = 1 then 3 else 0)
   \<and> run \<lparr>num_qubits = 3,
          circuit = \<lparr>qubits = 3, clbits = 3,
            data = [Hadamard 0, ControlledX 0 1, Measure 0 0, Measure 1 1, Measure 2 2]\<rparr>\<rparr>
         3 (\<lambda>k. if k = 1 then 3 else 0)
       = Inr [(''000'', 2), (''011'', 1)]
   \<and> set (map fst [(''000'', 2 :: int), (''011'', 1)]) \<subseteq> {''000'', ''011''}"
proof -
  have built: "and_then (create_bell_pair \<lparr>num_qubits = 3, circuit = \<lparr>qubits = 3, clbits = 3, data = []\<rparr>\<rparr>)
         measure_all
       = Inr \<lparr>num_qubits = 3,
          circuit = \<lparr>qubits = 3, clbits = 3,
            data = [Hadamard 0, ControlledX 0 1, Measure 0 0, Measure 1 1, Measure 2 2]\<rparr>\<rparr>"
    by (simp add: bell_experiment_built sim_with_gates_def with_gates_def measure_gates_3)
  have st: "final_state \<lparr>qubits = 3, clbits = 3,
          data = [Hadamard 0, ControlledX 0 1, Measure 0 0, Measure 1 1, Measure 2 2]\<rparr> = bell_state"
    using final_state_bell
      [of "\<lparr>qubits = 3, clbits = 3,
          data = [Hadamard 0, ControlledX 0 1, Measure 0 0, Measure 1 1, Measure 2 2]\<rparr>" 3]
    by (simp add: measure_gates_3)
  have proper: "proper_draws
         \<lparr>qubits = 3, clbits = 3,
          data = [Hadamard 0, ControlledX 0 1, Measure 0 0, Measure 1 1, Measure 2 2]\<rparr>
         3 (\<lambda>k. if k = 1 then 3 else 0)"
    using st by (simp add: proper_draws_def positive_born_bell)
  have r: "run \<lparr>num_qubits = 3,
          circuit = \<lparr>qubits = 3, clbits = 3,
            data = [Hadamard 0, ControlledX 0 1, Measure 0 0, Measure 1 1, Measure 2 2]\<rparr>\<rparr>
         3 (\<lambda>k. if k = 1 then 3 else 0)
       = Inr [(''000'', 2), (''011'', 1)]"
    by (simp add: run_def AerSimulator_run_def in_range_def format_outcome_def py_range_def
        tally_def upt_conv_Cons bit_3_nat bit_0)
  from create_bell_pair_state_and_keys
    [of "\<lparr>num_qubits = 3, circuit = \<lparr>qubits = 3, clbits = 3, data = []\<rparr>\<rparr>"
        3 "\<lambda>k. if k = 1 then 3 else 0"]
    built proper r
  show ?thesis
    by (simp add: numeral_3_eq_3)
qed

end
